theory Spec2Isabelle
  imports Main "HOL-Library.Sublist"
begin

section \<open>Documents\<close>

text \<open>
  The post routes (the second part of \<^verbatim>\<open>src/config/db.js\<close>) and the profile routes
  (the second part of \<^verbatim>\<open>src/routes/api/auth.js\<close>) work on three collections of a
  document store. An ObjectId is modelled by its canonical string
  (what \<^verbatim>\<open>toString()\<close> and \<^verbatim>\<open>item.id\<close> give), so the string comparisons of the
  routes are equalities on \<open>oid\<close>. The schema files are not part of the sources read
  here; a record has the fields the routes read or write.
\<close>

type_synonym oid = string

text \<open>
  A text value of a request or of a profile is a JavaScript string: the sequence of its
  UTF-16 code units (numbers below 65536), which is what \<^verbatim>\<open>split\<close>, \<^verbatim>\<open>trim\<close> and the
  test \<^verbatim>\<open>if (x)\<close> work on. \<open>ascii\<close> writes such a value from its ASCII characters.
\<close>

type_synonym jstring = "nat list"

definition ascii :: "string \<Rightarrow> jstring" where
  "ascii t = map of_char t"

record user =
  user_id :: oid
  user_name :: string
  user_avatar :: string

record like =
  like_user :: oid

record post =
  post_id :: oid
  post_text :: string
  post_name :: string
  post_avatar :: string
  post_user :: oid
  likes :: "like list"

record experience =
  exp_id :: oid
  exp_company :: "jstring option"
  exp_title :: "jstring option"
  exp_location :: "jstring option"
  exp_from :: "jstring option"
  exp_to :: "jstring option"
  exp_current :: "bool option"
  exp_description :: "jstring option"

record education =
  edu_id :: oid
  edu_school :: "jstring option"
  edu_degree :: "jstring option"
  edu_fieldofstudy :: "jstring option"
  edu_from :: "jstring option"
  edu_to :: "jstring option"
  edu_current :: "bool option"
  edu_description :: "jstring option"

record social =
  youtube :: "jstring option"
  twitter :: "jstring option"
  facebook :: "jstring option"
  linkedin :: "jstring option"
  instagram :: "jstring option"

record profile =
  profile_id :: oid
  profile_user :: oid
  company :: "jstring option"
  website :: "jstring option"
  location :: "jstring option"
  bio :: "jstring option"
  status :: "jstring option"
  githubusername :: "jstring option"
  skills :: "jstring list"
  social :: social
  experience :: "experience list"
  education :: "education list"

section \<open>The store\<close>

text \<open>
  Every call of the routes on a model or a document is one constructor of \<open>call\<close>.
  The journal of the store lists the writes that completed, oldest first, each with the
  id it was issued for: it is what makes "persisted", "nothing persisted" and the order
  of writes observable.
\<close>

datatype call =
  PostFindById | PostSave | PostRemove | PostDeleteMany
  | ProfileFindOne | ProfileFindOneAndUpdate | ProfileSave | ProfileFindOneAndRemove
  | UserFindOneAndRemove

record db =
  users :: "user list"
  profiles :: "profile list"
  posts :: "post list"
  counter :: nat
  journal :: "(call \<times> oid) list"

text \<open>
  What the routes cannot decide themselves is a parameter: which strings the driver
  casts to an ObjectId (and to which canonical id), the ids it generates for new
  documents, and which calls throw an error of the store (a lost connection).
\<close>

record driver =
  castObjectId :: "string \<Rightarrow> oid option"
  generate :: "nat \<Rightarrow> oid"
  fails :: "call \<Rightarrow> bool"

text \<open>
  The exceptions a route can catch: the cast error of a malformed id (the one with
  \<^verbatim>\<open>err.kind === 'ObjectId'\<close>), an error of the store, and the TypeError of reading a
  property of \<^verbatim>\<open>null\<close>.
\<close>

datatype exn = CastError | StoreError | TypeError | SyntaxError

section \<open>Responses\<close>

datatype json =
  JNull | JBool bool | JNum int | JStr string | JArr "json list" | JObj "(string \<times> json) list"

text \<open>
  An entry of \<^verbatim>\<open>errors.array()\<close>: the message of the failed check, the field it was
  made on and the part of the request the value came from.
\<close>

record verror =
  ve_msg :: string
  ve_param :: string
  ve_location :: string

datatype body =
  Msg string
  | Errors "verror list"
  | LikesDoc "like list"
  | ProfileDoc profile
  | NullDoc
  | ReposDoc json

text \<open>\<^verbatim>\<open>res.status(n).json(b)\<close> is \<open>Json n b\<close>, \<^verbatim>\<open>res.status(n).send(t)\<close> is \<open>Send n t\<close>.\<close>

datatype response = Json nat body | Send nat string

section \<open>Array methods\<close>

text \<open>\<^verbatim>\<open>xs.indexOf(x)\<close>: the first index of \<open>x\<close>, or \<open>-1\<close>.\<close>

fun indexOf :: "'a list \<Rightarrow> 'a \<Rightarrow> int" where
  "indexOf [] x = - 1"
| "indexOf (y # ys) x =
     (if y = x then 0 else (let r = indexOf ys x in if r < 0 then - 1 else r + 1))"

text \<open>
  \<^verbatim>\<open>xs.splice(start, count)\<close> as the routes use it (the removed elements are dropped):
  a negative start counts from the end and stops at the front.
\<close>

definition splice_js :: "'a list \<Rightarrow> int \<Rightarrow> nat \<Rightarrow> 'a list" where
  "splice_js xs start count =
     (let n = int (length xs);
          i = (if start < 0 then nat (max (n + start) 0) else nat (min start n))
      in take i xs @ drop (i + count) xs)"

text \<open>\<^verbatim>\<open>xs.unshift(x)\<close>.\<close>

definition unshift :: "'a list \<Rightarrow> 'a \<Rightarrow> 'a list" where
  "unshift xs x = x # xs"

section \<open>Posts: the model's calls\<close>

text \<open>\<^verbatim>\<open>Post.findById(id)\<close>: the id is cast first, then the collection is read.\<close>

definition Post_findById :: "driver \<Rightarrow> string \<Rightarrow> db \<Rightarrow> exn + post option" where
  "Post_findById d i s =
     (case castObjectId d i of
        None \<Rightarrow> Inl CastError
      | Some k \<Rightarrow>
          if fails d PostFindById then Inl StoreError
          else Inr (find (\<lambda>p. post_id p = k) (posts s)))"

text \<open>\<^verbatim>\<open>post.save()\<close> of a loaded document: the stored document of that id is replaced.\<close>

definition post_save :: "driver \<Rightarrow> post \<Rightarrow> db \<Rightarrow> exn + db" where
  "post_save d p s =
     (if fails d PostSave then Inl StoreError
      else Inr (s\<lparr>posts := map (\<lambda>q. if post_id q = post_id p then p else q) (posts s),
                  journal := journal s @ [(PostSave, post_id p)]\<rparr>))"

text \<open>\<^verbatim>\<open>post.remove()\<close>: the document of that id leaves the collection.\<close>

definition post_remove :: "driver \<Rightarrow> post \<Rightarrow> db \<Rightarrow> exn + db" where
  "post_remove d p s =
     (if fails d PostRemove then Inl StoreError
      else Inr (s\<lparr>posts := filter (\<lambda>q. post_id q \<noteq> post_id p) (posts s),
                  journal := journal s @ [(PostRemove, post_id p)]\<rparr>))"

text \<open>\<^verbatim>\<open>Post.deleteMany({ user: id })\<close>.\<close>

definition Post_deleteMany :: "driver \<Rightarrow> oid \<Rightarrow> db \<Rightarrow> exn + db" where
  "Post_deleteMany d uid s =
     (if fails d PostDeleteMany then Inl StoreError
      else Inr (s\<lparr>posts := filter (\<lambda>q. post_user q \<noteq> uid) (posts s),
                  journal := journal s @ [(PostDeleteMany, uid)]\<rparr>))"

section \<open>Posts: the routes\<close>

text \<open>
  The catch block of the post routes: a cast error is answered like a missing post,
  anything else is a server error.
\<close>

definition catch_post :: "exn \<Rightarrow> response" where
  "catch_post e =
     (if e = CastError then Json 404 (Msg ''Post not found'')
      else Send 500 ''Server Error'')"

text \<open>
  \<^verbatim>\<open>router.delete('/:id', auth, ...)\<close>. The first argument of every private route is
  \<^verbatim>\<open>req.user.id\<close>, the id the middleware took from the token.
\<close>

definition deleteById :: "driver \<Rightarrow> oid \<Rightarrow> string \<Rightarrow> db \<Rightarrow> response \<times> db" where
  "deleteById d uid i s =
     (case Post_findById d i s of
        Inl e \<Rightarrow> (catch_post e, s)
      | Inr None \<Rightarrow> (Json 404 (Msg ''Post not found''), s)
      | Inr (Some p) \<Rightarrow>
          if post_user p \<noteq> uid then (Json 401 (Msg ''User not authorized''), s)
          else (case post_remove d p s of
                  Inl e \<Rightarrow> (catch_post e, s)
                | Inr s' \<Rightarrow> (Json 200 (Msg ''Post removed''), s')))"

text \<open>\<^verbatim>\<open>router.put('/like/:id', auth, ...)\<close>.\<close>

definition like :: "driver \<Rightarrow> oid \<Rightarrow> string \<Rightarrow> db \<Rightarrow> response \<times> db" where
  "like d uid i s =
     (case Post_findById d i s of
        Inl e \<Rightarrow> (catch_post e, s)
      | Inr None \<Rightarrow> (Json 404 (Msg ''Post not found''), s)
      | Inr (Some p) \<Rightarrow>
          if length (filter (\<lambda>l. like_user l = uid) (likes p)) > 0
          then (Json 400 (Msg ''Post already liked''), s)
          else (let p' = p\<lparr>likes := unshift (likes p) \<lparr>like_user = uid\<rparr>\<rparr>
                in case post_save d p' s of
                     Inl e \<Rightarrow> (catch_post e, s)
                   | Inr s' \<Rightarrow> (Json 200 (LikesDoc (likes p')), s')))"

text \<open>\<^verbatim>\<open>router.put('/unlike/:id', auth, ...)\<close>.\<close>

definition unlike :: "driver \<Rightarrow> oid \<Rightarrow> string \<Rightarrow> db \<Rightarrow> response \<times> db" where
  "unlike d uid i s =
     (case Post_findById d i s of
        Inl e \<Rightarrow> (catch_post e, s)
      | Inr None \<Rightarrow> (Json 404 (Msg ''Post not found''), s)
      | Inr (Some p) \<Rightarrow>
          (let removeIndex = indexOf (map like_user (likes p)) uid
           in if removeIndex \<ge> 0
              then (let p' = p\<lparr>likes := splice_js (likes p) removeIndex 1\<rparr>
                    in case post_save d p' s of
                         Inl e \<Rightarrow> (catch_post e, s)
                       | Inr s' \<Rightarrow> (Json 200 (LikesDoc (likes p')), s'))
              else (Json 400 (Msg ''Post has not yet been liked''), s)))"

text \<open>The invariant of the data model: no user id twice in the likes of a post.\<close>

definition likes_distinct :: "post \<Rightarrow> bool" where
  "likes_distinct p = distinct (map like_user (likes p))"

definition posts_ok :: "db \<Rightarrow> bool" where
  "posts_ok s = list_all likes_distinct (posts s)"

section \<open>Profiles: the model's calls\<close>

text \<open>\<^verbatim>\<open>Profile.findOne({ user: id })\<close>: the first profile of that owner, or \<^verbatim>\<open>null\<close>.\<close>

definition Profile_findOne :: "driver \<Rightarrow> oid \<Rightarrow> db \<Rightarrow> exn + profile option" where
  "Profile_findOne d uid s =
     (if fails d ProfileFindOne then Inl StoreError
      else Inr (find (\<lambda>p. profile_user p = uid) (profiles s)))"

text \<open>Reading a property of what \<^verbatim>\<open>findOne\<close> returned throws when that is \<^verbatim>\<open>null\<close>.\<close>

fun deref :: "'a option \<Rightarrow> exn + 'a" where
  "deref None = Inl TypeError"
| "deref (Some x) = Inr x"

fun update_first :: "('a \<Rightarrow> bool) \<Rightarrow> ('a \<Rightarrow> 'a) \<Rightarrow> 'a list \<Rightarrow> 'a list" where
  "update_first P f [] = []"
| "update_first P f (x # xs) = (if P x then f x # xs else x # update_first P f xs)"

fun remove_first :: "('a \<Rightarrow> bool) \<Rightarrow> 'a list \<Rightarrow> 'a list" where
  "remove_first P [] = []"
| "remove_first P (x # xs) = (if P x then xs else x # remove_first P xs)"

text \<open>
  The object \<^verbatim>\<open>profileFields\<close> of the upsert route: a key that was not assigned is
  \<open>None\<close>; the keys \<^verbatim>\<open>user\<close> and \<^verbatim>\<open>social\<close> are always assigned.
\<close>

record profileFields =
  pf_user :: oid
  pf_company :: "jstring option"
  pf_website :: "jstring option"
  pf_location :: "jstring option"
  pf_bio :: "jstring option"
  pf_status :: "jstring option"
  pf_githubusername :: "jstring option"
  pf_skills :: "jstring list option"
  pf_social :: social

text \<open>
  The update operator \<^verbatim>\<open>{ $set: profileFields }\<close>: the store replaces the value of
  every field the operand has as a key and leaves the other fields alone. The key
  \<^verbatim>\<open>social\<close> names the embedded object, so its value is replaced by the operand's
  object as a whole (a single embedded field is addressed by a dotted key such as
  \<^verbatim>\<open>'social.youtube'\<close>, which the route does not build).
\<close>

definition assign :: "'a option \<Rightarrow> 'a option \<Rightarrow> 'a option" where
  "assign new old = (case new of None \<Rightarrow> old | Some v \<Rightarrow> Some v)"

definition dollar_set :: "profileFields \<Rightarrow> profile \<Rightarrow> profile" where
  "dollar_set pf p =
     p\<lparr>profile_user := pf_user pf,
       company := assign (pf_company pf) (company p),
       website := assign (pf_website pf) (website p),
       location := assign (pf_location pf) (location p),
       bio := assign (pf_bio pf) (bio p),
       status := assign (pf_status pf) (status p),
       githubusername := assign (pf_githubusername pf) (githubusername p),
       skills := (case pf_skills pf of None \<Rightarrow> skills p | Some v \<Rightarrow> v),
       social := pf_social pf\<rparr>"

text \<open>
  \<^verbatim>\<open>Profile.findOneAndUpdate({ user: id }, { $set: profileFields }, { new: true })\<close>:
  the first profile of that owner is updated and returned as updated; \<^verbatim>\<open>null\<close> when
  there is none.
\<close>

definition Profile_findOneAndUpdate ::
  "driver \<Rightarrow> oid \<Rightarrow> profileFields \<Rightarrow> db \<Rightarrow> exn + (profile option \<times> db)" where
  "Profile_findOneAndUpdate d uid pf s =
     (if fails d ProfileFindOneAndUpdate then Inl StoreError
      else Inr (map_option (dollar_set pf) (find (\<lambda>p. profile_user p = uid) (profiles s)),
                s\<lparr>profiles := update_first (\<lambda>p. profile_user p = uid) (dollar_set pf) (profiles s),
                  journal := journal s @ [(ProfileFindOneAndUpdate, uid)]\<rparr>))"

text \<open>\<^verbatim>\<open>new Profile(profileFields)\<close> with the id the driver generated for it.\<close>

definition new_Profile :: "oid \<Rightarrow> profileFields \<Rightarrow> profile" where
  "new_Profile i pf =
     \<lparr>profile_id = i, profile_user = pf_user pf,
      company = pf_company pf, website = pf_website pf, location = pf_location pf,
      bio = pf_bio pf, status = pf_status pf, githubusername = pf_githubusername pf,
      skills = (case pf_skills pf of None \<Rightarrow> [] | Some v \<Rightarrow> v),
      social = pf_social pf, experience = [], education = []\<rparr>"

text \<open>\<^verbatim>\<open>profile.save()\<close> of a new document: it joins the collection.\<close>

definition profile_insert :: "driver \<Rightarrow> profile \<Rightarrow> db \<Rightarrow> exn + db" where
  "profile_insert d p s =
     (if fails d ProfileSave then Inl StoreError
      else Inr (s\<lparr>profiles := profiles s @ [p],
                  journal := journal s @ [(ProfileSave, profile_id p)]\<rparr>))"

text \<open>\<^verbatim>\<open>profile.save()\<close> of a loaded document: the stored document of that id is replaced.\<close>

definition profile_save :: "driver \<Rightarrow> profile \<Rightarrow> db \<Rightarrow> exn + db" where
  "profile_save d p s =
     (if fails d ProfileSave then Inl StoreError
      else Inr (s\<lparr>profiles := map (\<lambda>q. if profile_id q = profile_id p then p else q) (profiles s),
                  journal := journal s @ [(ProfileSave, profile_id p)]\<rparr>))"

text \<open>\<^verbatim>\<open>Profile.findOneAndRemove({ user: id })\<close> and \<^verbatim>\<open>User.findOneAndRemove({ _id: id })\<close>.\<close>

definition Profile_findOneAndRemove :: "driver \<Rightarrow> oid \<Rightarrow> db \<Rightarrow> exn + db" where
  "Profile_findOneAndRemove d uid s =
     (if fails d ProfileFindOneAndRemove then Inl StoreError
      else Inr (s\<lparr>profiles := remove_first (\<lambda>p. profile_user p = uid) (profiles s),
                  journal := journal s @ [(ProfileFindOneAndRemove, uid)]\<rparr>))"

definition User_findOneAndRemove :: "driver \<Rightarrow> oid \<Rightarrow> db \<Rightarrow> exn + db" where
  "User_findOneAndRemove d uid s =
     (if fails d UserFindOneAndRemove then Inl StoreError
      else Inr (s\<lparr>users := remove_first (\<lambda>u. user_id u = uid) (users s),
                  journal := journal s @ [(UserFindOneAndRemove, uid)]\<rparr>))"

section \<open>Profiles: the upsert route\<close>

text \<open>
  The fields of \<^verbatim>\<open>req.body\<close> the route destructures. A field is a string or missing
  (\<open>None\<close>), which is what the profile form sends; \<^verbatim>\<open>if (x)\<close> on such a value holds
  exactly for a non-empty string.
\<close>

record profile_body =
  b_company :: "jstring option"
  b_website :: "jstring option"
  b_location :: "jstring option"
  b_bio :: "jstring option"
  b_status :: "jstring option"
  b_githubusername :: "jstring option"
  b_skills :: "jstring option"
  b_youtube :: "jstring option"
  b_facebook :: "jstring option"
  b_twitter :: "jstring option"
  b_instagram :: "jstring option"
  b_linkedin :: "jstring option"

definition truthy :: "jstring option \<Rightarrow> bool" where
  "truthy v = (case v of None \<Rightarrow> False | Some t \<Rightarrow> t \<noteq> [])"

text \<open>\<^verbatim>\<open>if (x) fields.x = x\<close>: the key is assigned only for a truthy value.\<close>

definition assigned :: "jstring option \<Rightarrow> jstring option" where
  "assigned v = (if truthy v then v else None)"

text \<open>\<^verbatim>\<open>s.split(',')\<close> with a separator of one code unit (the comma is 44).\<close>

fun split :: "'a \<Rightarrow> 'a list \<Rightarrow> 'a list list" where
  "split c [] = [[]]"
| "split c (x # xs) =
     (if x = c then [] # split c xs
      else (case split c xs of [] \<Rightarrow> [[x]] | w # ws \<Rightarrow> (x # w) # ws))"

text \<open>
  \<^verbatim>\<open>s.trim()\<close> removes white space and line terminators from both ends: tab, line feed,
  vertical tab, form feed, carriage return, space, no-break space, the byte order mark,
  the line and paragraph separators and the other space separators of Unicode.
\<close>

definition is_space :: "nat \<Rightarrow> bool" where
  "is_space c =
     (c \<in> set [0x0009, 0x000A, 0x000B, 0x000C, 0x000D, 0x0020, 0x00A0, 0x1680,
                0x2028, 0x2029, 0x202F, 0x205F, 0x3000, 0xFEFF]
      \<or> (0x2000 \<le> c \<and> c \<le> 0x200A))"

definition trim :: "jstring \<Rightarrow> jstring" where
  "trim t = rev (dropWhile is_space (rev (dropWhile is_space t)))"

definition build_profileFields :: "oid \<Rightarrow> profile_body \<Rightarrow> profileFields" where
  "build_profileFields uid b =
     \<lparr>pf_user = uid,
      pf_company = assigned (b_company b),
      pf_website = assigned (b_website b),
      pf_location = assigned (b_location b),
      pf_bio = assigned (b_bio b),
      pf_status = assigned (b_status b),
      pf_githubusername = assigned (b_githubusername b),
      pf_skills = (if truthy (b_skills b)
                   then Some (map trim (split 44 (the (b_skills b)))) else None),
      pf_social = \<lparr>youtube = assigned (b_youtube b),
                   twitter = assigned (b_twitter b),
                   facebook = assigned (b_facebook b),
                   linkedin = assigned (b_linkedin b),
                   instagram = assigned (b_instagram b)\<rparr>\<rparr>"

text \<open>The catch block of the profile routes.\<close>

definition catch_profile :: "exn \<Rightarrow> response" where
  "catch_profile e = Send 500 ''Server Error''"

definition doc :: "profile option \<Rightarrow> body" where
  "doc r = (case r of None \<Rightarrow> NullDoc | Some p \<Rightarrow> ProfileDoc p)"

text \<open>
  \<^verbatim>\<open>router.post('/', [auth, [...]], ...)\<close>. The checks on \<^verbatim>\<open>status\<close> and \<^verbatim>\<open>skills\<close>
  are run by the validator before the handler, on what it finds for the field in the
  body, the cookies, the headers, the route parameters and the query of the request.
  The handler reads their outcome with \<^verbatim>\<open>validationResult(req)\<close>: the argument
  \<open>errors\<close> is \<^verbatim>\<open>errors.array()\<close>. A request can pass the checks with a field that its
  body does not have.
\<close>

definition upsert ::
  "driver \<Rightarrow> oid \<Rightarrow> verror list \<Rightarrow> profile_body \<Rightarrow> db \<Rightarrow> response \<times> db" where
  "upsert d uid errors b s =
     (if errors \<noteq> [] then (Json 400 (Errors errors), s)
     else (let pf = build_profileFields uid b
           in case Profile_findOne d uid s of
                Inl e \<Rightarrow> (catch_profile e, s)
              | Inr (Some _) \<Rightarrow>
                  (case Profile_findOneAndUpdate d uid pf s of
                     Inl e \<Rightarrow> (catch_profile e, s)
                   | Inr (r, s') \<Rightarrow> (Json 200 (doc r), s'))
              | Inr None \<Rightarrow>
                  (let p = new_Profile (generate d (counter s)) pf;
                       s1 = s\<lparr>counter := Suc (counter s)\<rparr>
                   in case profile_insert d p s1 of
                        Inl e \<Rightarrow> (catch_profile e, s1)
                      | Inr s' \<Rightarrow> (Json 200 (ProfileDoc p), s'))))"

section \<open>Profiles: deleting the account\<close>

text \<open>\<^verbatim>\<open>router.delete('/', auth, ...)\<close>: three awaited calls in one try block.\<close>

definition deleteCascade :: "driver \<Rightarrow> oid \<Rightarrow> db \<Rightarrow> response \<times> db" where
  "deleteCascade d uid s =
     (case Post_deleteMany d uid s of
        Inl e \<Rightarrow> (catch_profile e, s)
      | Inr s1 \<Rightarrow>
          (case Profile_findOneAndRemove d uid s1 of
             Inl e \<Rightarrow> (catch_profile e, s1)
           | Inr s2 \<Rightarrow>
               (case User_findOneAndRemove d uid s2 of
                  Inl e \<Rightarrow> (catch_profile e, s2)
                | Inr s3 \<Rightarrow> (Json 200 (Msg ''User deleted''), s3))))"

section \<open>Profiles: experience and education\<close>

text \<open>The fields of \<^verbatim>\<open>req.body\<close> the two routes destructure.\<close>

record experience_body =
  xb_company :: "jstring option"
  xb_title :: "jstring option"
  xb_location :: "jstring option"
  xb_from :: "jstring option"
  xb_to :: "jstring option"
  xb_current :: "bool option"
  xb_description :: "jstring option"

record education_body =
  eb_school :: "jstring option"
  eb_degree :: "jstring option"
  eb_fieldofstudy :: "jstring option"
  eb_from :: "jstring option"
  eb_to :: "jstring option"
  eb_current :: "bool option"
  eb_description :: "jstring option"

text \<open>
  \<^verbatim>\<open>newExp\<close> and \<^verbatim>\<open>newEdu\<close>, as the sub-documents they become in the array: the id is
  the one the driver generates when the entry is put into the array.
\<close>

definition newExp :: "oid \<Rightarrow> experience_body \<Rightarrow> experience" where
  "newExp i b =
     \<lparr>exp_id = i, exp_company = xb_company b, exp_title = xb_title b,
      exp_location = xb_location b, exp_from = xb_from b, exp_to = xb_to b,
      exp_current = xb_current b, exp_description = xb_description b\<rparr>"

definition newEdu :: "oid \<Rightarrow> education_body \<Rightarrow> education" where
  "newEdu i b =
     \<lparr>edu_id = i, edu_school = eb_school b, edu_degree = eb_degree b,
      edu_fieldofstudy = eb_fieldofstudy b, edu_from = eb_from b, edu_to = eb_to b,
      edu_current = eb_current b, edu_description = eb_description b\<rparr>"

text \<open>
  \<^verbatim>\<open>router.put('/experience', [auth, [...]], ...)\<close>; \<open>errors\<close> is the outcome of the
  checks on \<^verbatim>\<open>title\<close>, \<^verbatim>\<open>company\<close> and \<^verbatim>\<open>from\<close>, as in the upsert route.
\<close>

definition addExperience ::
  "driver \<Rightarrow> oid \<Rightarrow> verror list \<Rightarrow> experience_body \<Rightarrow> db \<Rightarrow> response \<times> db" where
  "addExperience d uid errors b s =
     (if errors \<noteq> [] then (Json 400 (Errors errors), s)
     else (case Profile_findOne d uid s of
             Inl e \<Rightarrow> (catch_profile e, s)
           | Inr r \<Rightarrow>
               (case deref r of
                  Inl e \<Rightarrow> (catch_profile e, s)
                | Inr p \<Rightarrow>
                    (let p' = p\<lparr>experience :=
                                  unshift (experience p) (newExp (generate d (counter s)) b)\<rparr>;
                         s1 = s\<lparr>counter := Suc (counter s)\<rparr>
                     in case profile_save d p' s1 of
                          Inl e \<Rightarrow> (catch_profile e, s1)
                        | Inr s' \<Rightarrow> (Json 200 (ProfileDoc p'), s')))))"

text \<open>
  \<^verbatim>\<open>router.put('/education', [auth, [...]], ...)\<close>; \<open>errors\<close> is the outcome of the
  checks on \<^verbatim>\<open>school\<close>, \<^verbatim>\<open>degree\<close>, \<^verbatim>\<open>fieldofstudy\<close> and \<^verbatim>\<open>from\<close>.
\<close>

definition addEducation ::
  "driver \<Rightarrow> oid \<Rightarrow> verror list \<Rightarrow> education_body \<Rightarrow> db \<Rightarrow> response \<times> db" where
  "addEducation d uid errors b s =
     (if errors \<noteq> [] then (Json 400 (Errors errors), s)
     else (case Profile_findOne d uid s of
             Inl e \<Rightarrow> (catch_profile e, s)
           | Inr r \<Rightarrow>
               (case deref r of
                  Inl e \<Rightarrow> (catch_profile e, s)
                | Inr p \<Rightarrow>
                    (let p' = p\<lparr>education :=
                                  unshift (education p) (newEdu (generate d (counter s)) b)\<rparr>;
                         s1 = s\<lparr>counter := Suc (counter s)\<rparr>
                     in case profile_save d p' s1 of
                          Inl e \<Rightarrow> (catch_profile e, s1)
                        | Inr s' \<Rightarrow> (Json 200 (ProfileDoc p'), s')))))"

text \<open>\<^verbatim>\<open>router.delete('/experience/:exp_id', auth, ...)\<close>.\<close>

definition removeExperience :: "driver \<Rightarrow> oid \<Rightarrow> string \<Rightarrow> db \<Rightarrow> response \<times> db" where
  "removeExperience d uid i s =
     (case Profile_findOne d uid s of
        Inl e \<Rightarrow> (catch_profile e, s)
      | Inr r \<Rightarrow>
          (case deref r of
             Inl e \<Rightarrow> (catch_profile e, s)
           | Inr p \<Rightarrow>
               (let removeIndex = indexOf (map exp_id (experience p)) i
                in if removeIndex \<ge> 0
                   then (let p' = p\<lparr>experience := splice_js (experience p) removeIndex 1\<rparr>
                         in case profile_save d p' s of
                              Inl e \<Rightarrow> (catch_profile e, s)
                            | Inr s' \<Rightarrow> (Json 200 (ProfileDoc p'), s'))
                   else (Json 200 (ProfileDoc p), s))))"

text \<open>\<^verbatim>\<open>router.delete('/education/:edu_id', auth, ...)\<close>.\<close>

definition removeEducation :: "driver \<Rightarrow> oid \<Rightarrow> string \<Rightarrow> db \<Rightarrow> response \<times> db" where
  "removeEducation d uid i s =
     (case Profile_findOne d uid s of
        Inl e \<Rightarrow> (catch_profile e, s)
      | Inr r \<Rightarrow>
          (case deref r of
             Inl e \<Rightarrow> (catch_profile e, s)
           | Inr p \<Rightarrow>
               (let removeIndex = indexOf (map edu_id (education p)) i
                in if removeIndex \<ge> 0
                   then (let p' = p\<lparr>education := splice_js (education p) removeIndex 1\<rparr>
                         in case profile_save d p' s of
                              Inl e \<Rightarrow> (catch_profile e, s)
                            | Inr s' \<Rightarrow> (Json 200 (ProfileDoc p'), s'))
                   else (Json 200 (ProfileDoc p), s))))"

section \<open>The repositories of a GitHub account\<close>

record config =
  githubid :: string
  githubsecret :: string

text \<open>The \<^verbatim>\<open>uri\<close> of the request's options.\<close>

definition github_uri :: "config \<Rightarrow> string \<Rightarrow> string" where
  "github_uri cfg username =
     ''https://api.github.com/users/'' @ username
       @ ''/repos?per_page=5&sort=created:asc&client_id='' @ githubid cfg
       @ ''&client_secret='' @ githubsecret cfg"

text \<open>
  What the request library hands to the callback: an error and no response when the
  transport failed, else the response's status code and its body.
\<close>

datatype upstream = Failed string | Answered nat string

text \<open>
  The callback either answers the client or throws. It runs after the route's try block
  has been left, so nothing catches what it throws and the client gets no answer.
\<close>

datatype outcome = Replied response | Uncaught exn

text \<open>
  The callback of \<^verbatim>\<open>request(options, ...)\<close>. \<^verbatim>\<open>JSON.parse\<close> is the parameter
  \<open>parse\<close>, \<open>None\<close> where it throws a SyntaxError.
\<close>

definition callback :: "(string \<Rightarrow> json option) \<Rightarrow> upstream \<Rightarrow> outcome" where
  "callback parse u =
     (case u of
        Failed error \<Rightarrow> Uncaught TypeError
      | Answered statusCode body \<Rightarrow>
          if statusCode \<noteq> 200 then Replied (Json 404 (Msg ''No github profile found''))
          else (case parse body of
                  None \<Rightarrow> Uncaught SyntaxError
                | Some v \<Rightarrow> Replied (Json 200 (ReposDoc v))))"

text \<open>
  \<^verbatim>\<open>router.get('/github/:username', ...)\<close>: the request goes to the uri built from the
  user name, and \<open>net\<close> is what the network answers for a uri.
\<close>

definition listRepos ::
  "config \<Rightarrow> (string \<Rightarrow> json option) \<Rightarrow> (string \<Rightarrow> upstream) \<Rightarrow> string \<Rightarrow> outcome" where
  "listRepos cfg parse net username = callback parse (net (github_uri cfg username))"

section \<open>Sample data\<close>

text \<open>
  A driver that never fails and casts every non-empty string, and a small store: two
  users, one profile, two posts. The theorems below are run on them.
\<close>

definition reliable :: driver where
  "reliable =
     \<lparr>castObjectId = (\<lambda>i. if i = [] then None else Some i),
      generate = (\<lambda>n. ''new'' @ replicate n CHR ''x''),
      fails = (\<lambda>c. False)\<rparr>"

text \<open>The same driver with a connection that is lost when the profile is to be removed.\<close>

definition flaky :: driver where
  "flaky = reliable\<lparr>fails := (\<lambda>c. c = ProfileFindOneAndRemove)\<rparr>"

definition ann :: user where
  "ann = \<lparr>user_id = ''u1'', user_name = ''Ann'', user_avatar = ''ann.png''\<rparr>"

definition bob :: user where
  "bob = \<lparr>user_id = ''u2'', user_name = ''Bob'', user_avatar = ''bob.png''\<rparr>"

definition ann_post :: post where
  "ann_post =
     \<lparr>post_id = ''p1'', post_text = ''hello'', post_name = ''Ann'',
      post_avatar = ''ann.png'', post_user = ''u1'', likes = [\<lparr>like_user = ''u2''\<rparr>]\<rparr>"

definition bob_post :: post where
  "bob_post =
     \<lparr>post_id = ''p2'', post_text = ''hi'', post_name = ''Bob'',
      post_avatar = ''bob.png'', post_user = ''u2'', likes = []\<rparr>"

definition job :: experience where
  "job =
     \<lparr>exp_id = ''e1'', exp_company = Some (ascii ''Acme''), exp_title = Some (ascii ''Engineer''),
      exp_location = None, exp_from = Some (ascii ''2018-01-01''), exp_to = None,
      exp_current = Some True, exp_description = None\<rparr>"

definition school :: education where
  "school =
     \<lparr>edu_id = ''s1'', edu_school = Some (ascii ''NTNU''), edu_degree = Some (ascii ''MSc''),
      edu_fieldofstudy = Some (ascii ''Computing''), edu_from = Some (ascii ''2012-08-01''),
      edu_to = Some (ascii ''2017-06-01''), edu_current = Some False, edu_description = None\<rparr>"

definition ann_profile :: profile where
  "ann_profile =
     \<lparr>profile_id = ''f1'', profile_user = ''u1'',
      company = Some (ascii ''Acme''), website = None, location = Some (ascii ''Oslo''), bio = None,
      status = Some (ascii ''Developer''), githubusername = Some (ascii ''ann''),
      skills = [ascii ''html'', ascii ''css''],
      social = \<lparr>youtube = Some (ascii ''yt/ann''), twitter = Some (ascii ''tw/ann''), facebook = None,
                linkedin = None, instagram = None\<rparr>,
      experience = [job], education = [school]\<rparr>"

definition sample_db :: db where
  "sample_db =
     \<lparr>users = [ann, bob], profiles = [ann_profile], posts = [ann_post, bob_post],
      counter = 0, journal = []\<rparr>"

text \<open>
  Requests: an edit of Ann's profile that names a new YouTube link and leaves the
  Twitter link out, and one that sends the company and the YouTube link as empty
  strings; a first profile for Bob with an empty company and no social links; an
  experience and an education entry.
\<close>

definition edit_body :: profile_body where
  "edit_body =
     \<lparr>b_company = None, b_website = Some (ascii ''ann.dev''), b_location = None, b_bio = None,
      b_status = Some (ascii ''Senior developer''), b_githubusername = None,
      b_skills = Some (ascii ''html, css ,js''),
      b_youtube = Some (ascii ''yt/new''), b_facebook = None, b_twitter = None,
      b_instagram = None, b_linkedin = None\<rparr>"

definition clear_body :: profile_body where
  "clear_body =
     \<lparr>b_company = Some [], b_website = None, b_location = None, b_bio = None,
      b_status = Some (ascii ''Developer''), b_githubusername = None,
      b_skills = Some (ascii ''html,css''),
      b_youtube = Some [], b_facebook = None, b_twitter = Some (ascii ''tw/ann''),
      b_instagram = None, b_linkedin = None\<rparr>"

definition first_body :: profile_body where
  "first_body =
     \<lparr>b_company = Some [], b_website = None, b_location = None, b_bio = None,
      b_status = Some (ascii ''Student''), b_githubusername = None,
      b_skills = Some (ascii ''c''),
      b_youtube = Some [], b_facebook = None, b_twitter = None,
      b_instagram = None, b_linkedin = None\<rparr>"

definition job_body :: experience_body where
  "job_body =
     \<lparr>xb_company = Some (ascii ''Initech''), xb_title = Some (ascii ''Lead''), xb_location = None,
      xb_from = Some (ascii ''2020-03-01''), xb_to = None, xb_current = Some True,
      xb_description = None\<rparr>"

definition school_body :: education_body where
  "school_body =
     \<lparr>eb_school = Some (ascii ''UiO''), eb_degree = Some (ascii ''PhD''), eb_fieldofstudy = Some (ascii ''Logic''),
      eb_from = Some (ascii ''2017-08-01''), eb_to = None, eb_current = Some True,
      eb_description = None\<rparr>"

text \<open>A parser that knows one document, and the keys of a configuration.\<close>

definition parse_empty_array :: "string \<Rightarrow> json option" where
  "parse_empty_array b = (if b = ''[]'' then Some (JArr []) else None)"

definition keys :: config where
  "keys = \<lparr>githubid = ''id'', githubsecret = ''secret''\<rparr>"

section \<open>Facts about the array methods and the store\<close>

lemmas sample_defs =
  reliable_def flaky_def ann_def bob_def ann_post_def bob_post_def job_def school_def
  ann_profile_def sample_db_def edit_body_def clear_body_def first_body_def job_body_def
  school_body_def

lemma indexOf_ge: "- 1 \<le> indexOf xs x"
  by (induction xs) (auto simp: Let_def)

lemma indexOf_nonneg_iff: "0 \<le> indexOf xs x \<longleftrightarrow> x \<in> set xs"
proof (induction xs)
  case Nil
  then show ?case by simp
next
  case (Cons y ys)
  then show ?case using indexOf_ge [of ys x] by (auto simp: Let_def)
qed

lemma splice_js_zero: "splice_js (x # xs) 0 (Suc 0) = xs"
  by (simp add: splice_js_def)

lemma splice_js_succ:
  "0 \<le> r \<Longrightarrow> splice_js (x # xs) (r + 1) (Suc 0) = x # splice_js xs r (Suc 0)"
  by (auto simp: splice_js_def Let_def nat_add_distrib min_def)

lemma splice_js_indexOf:
  "x \<in> f ` set xs \<Longrightarrow> splice_js xs (indexOf (map f xs) x) 1 = remove_first (\<lambda>y. f y = x) xs"
proof (induction xs)
  case Nil
  then show ?case by simp
next
  case (Cons y ys)
  show ?case
  proof (cases "f y = x")
    case True
    then show ?thesis by (simp add: splice_js_zero)
  next
    case False
    with Cons.prems have mem: "x \<in> f ` set ys" by auto
    then have "0 \<le> indexOf (map f ys) x" by (simp add: indexOf_nonneg_iff)
    with False Cons.IH [OF mem] show ?thesis
      by (simp add: Let_def splice_js_succ)
  qed
qed

lemma length_remove_first:
  "\<exists>y \<in> set xs. P y \<Longrightarrow> Suc (length (remove_first P xs)) = length xs"
  by (induction xs) auto

lemma find_replace:
  "find (\<lambda>q. g q = k) xs = Some p \<Longrightarrow> g p' = g p \<Longrightarrow>
   find (\<lambda>q. g q = k) (map (\<lambda>q. if g q = g p then p' else q) xs) = Some p'"
  by (induction xs) (auto split: if_splits)

lemma find_filter_gone:
  "find (\<lambda>q. g q = k) xs = Some p \<Longrightarrow>
   find (\<lambda>q. g q = k) (filter (\<lambda>q. g q \<noteq> g p) xs) = None"
  by (induction xs) (auto split: if_splits simp: find_None_iff)

lemma find_key: "find (\<lambda>q. g q = k) xs = Some p \<Longrightarrow> g p = k \<and> p \<in> set xs"
  by (induction xs) (auto split: if_splits)

lemma findById_cases:
  "Post_findById d i s = Inr r \<Longrightarrow>
   \<not> fails d PostFindById \<and>
   (\<exists>k. castObjectId d i = Some k \<and> r = find (\<lambda>p. post_id p = k) (posts s))"
  by (auto simp: Post_findById_def split: option.splits if_splits)

lemma liked_filter:
  "(0 < length (filter (\<lambda>l. like_user l = uid) ls)) = (uid \<in> like_user ` set ls)"
  by (induction ls) auto

lemma remove_first_gone:
  "distinct (map f xs) \<Longrightarrow> x \<notin> f ` set (remove_first (\<lambda>y. f y = x) xs)"
  by (induction xs) auto

lemma remove_first_subset: "set (remove_first P xs) \<subseteq> set xs"
  by (induction xs) auto

lemma remove_first_distinct:
  "distinct (map f xs) \<Longrightarrow> distinct (map f (remove_first P xs))"
proof (induction xs)
  case Nil
  then show ?case by simp
next
  case (Cons y ys)
  from Cons remove_first_subset [of P ys] show ?case by auto
qed

lemma post_save_ok:
  "posts_ok s \<Longrightarrow> likes_distinct p \<Longrightarrow> post_save d p s = Inr s' \<Longrightarrow> posts_ok s'"
  by (auto simp: post_save_def posts_ok_def list_all_iff split: if_splits)

lemma found_ok:
  "posts_ok s \<Longrightarrow> Post_findById d i s = Inr (Some p) \<Longrightarrow> likes_distinct p"
  using find_key [of post_id _ "posts s" p]
  by (auto simp: posts_ok_def list_all_iff dest!: findById_cases)

lemma find_update_first:
  "find P xs = Some p \<Longrightarrow> P (f p) \<Longrightarrow> find P (update_first P f xs) = Some (f p)"
  by (induction xs) (auto split: if_splits)

lemma find_replace_id:
  "find (\<lambda>q. u q = k) xs = Some p \<Longrightarrow> u p' = k \<Longrightarrow>
   find (\<lambda>q. u q = k) (map (\<lambda>q. if g q = g p then p' else q) xs) = Some p'"
  by (induction xs) (auto split: if_splits)

lemma findOne_cases:
  "Profile_findOne d uid s = Inr r \<Longrightarrow>
   \<not> fails d ProfileFindOne \<and> find (\<lambda>p. profile_user p = uid) (profiles s) = r"
  by (auto simp: Profile_findOne_def split: if_splits)

lemma upsert_existing:
  assumes "Profile_findOne d uid s = Inr (Some p)"
    and "\<not> fails d ProfileFindOneAndUpdate"
  shows "upsert d uid [] b s =
     (Json 200 (ProfileDoc (dollar_set (build_profileFields uid b) p)),
      s\<lparr>profiles := update_first (\<lambda>q. profile_user q = uid)
                      (dollar_set (build_profileFields uid b)) (profiles s),
        journal := journal s @ [(ProfileFindOneAndUpdate, uid)]\<rparr>)"
  using assms findOne_cases [OF assms(1)]
  by (simp add: upsert_def Profile_findOneAndUpdate_def doc_def Let_def)

lemma upsert_new:
  assumes "Profile_findOne d uid s = Inr None" and "\<not> fails d ProfileSave"
  shows "upsert d uid [] b s =
     (Json 200 (ProfileDoc (new_Profile (generate d (counter s)) (build_profileFields uid b))),
      s\<lparr>counter := Suc (counter s),
        profiles := profiles s @ [new_Profile (generate d (counter s)) (build_profileFields uid b)],
        journal := journal s @ [(ProfileSave, generate d (counter s))]\<rparr>)"
  using assms
  by (simp add: upsert_def profile_insert_def new_Profile_def Let_def)

lemma find_ann_post: "Post_findById reliable ''p1'' sample_db = Inr (Some ann_post)"
  by (simp add: Post_findById_def sample_defs)

section \<open>Liking and unliking a post\<close>

text \<open>
  C5. When the post of the request exists and the caller's id is already among its
  likes, the route answers 400 "Post already liked" and the store is the one it was: no
  like is added and no write is issued. When the caller's id is not among the likes
  (and the save goes through), a like of the caller is put in front of the others, the
  post is saved with it (reading the post again gives the new likes, and the journal
  has one more save), and the answer is 200 with the new likes.
\<close>

theorem like_guarded:
  "Post_findById d i s = Inr (Some p) \<Longrightarrow>
   (uid \<in> like_user ` set (likes p) \<longrightarrow>
      like d uid i s = (Json 400 (Msg ''Post already liked''), s)) \<and>
   (uid \<notin> like_user ` set (likes p) \<and> \<not> fails d PostSave \<longrightarrow>
      fst (like d uid i s) = Json 200 (LikesDoc (\<lparr>like_user = uid\<rparr> # likes p)) \<and>
      Post_findById d i (snd (like d uid i s)) =
        Inr (Some (p\<lparr>likes := \<lparr>like_user = uid\<rparr> # likes p\<rparr>)) \<and>
      journal (snd (like d uid i s)) = journal s @ [(PostSave, post_id p)])"
proof -
  assume found: "Post_findById d i s = Inr (Some p)"
  from findById_cases [OF found] obtain k where
    ok: "\<not> fails d PostFindById" and cast: "castObjectId d i = Some k"
    and fnd: "find (\<lambda>q. post_id q = k) (posts s) = Some p" by auto
  let ?p' = "p\<lparr>likes := \<lparr>like_user = uid\<rparr> # likes p\<rparr>"
  have again: "find (\<lambda>q. post_id q = k) (map (\<lambda>q. if post_id q = post_id p then ?p' else q) (posts s)) = Some ?p'"
    using find_replace [OF fnd, of ?p'] by simp
  show ?thesis
    using found ok cast again
    by (auto simp: like_def liked_filter unshift_def post_save_def Post_findById_def
          simp del: length_greater_0_conv)
qed

theorem like_guarded_witness:
  "like reliable ''u2'' ''p1'' sample_db = (Json 400 (Msg ''Post already liked''), sample_db) \<and>
   fst (like reliable ''u1'' ''p1'' sample_db) =
     Json 200 (LikesDoc [\<lparr>like_user = ''u1''\<rparr>, \<lparr>like_user = ''u2''\<rparr>]) \<and>
   journal (snd (like reliable ''u1'' ''p1'' sample_db)) = [(PostSave, ''p1'')]"
proof -
  have a: "''u2'' \<in> like_user ` set (likes ann_post)"
    by (simp add: ann_post_def)
  have b: "''u1'' \<notin> like_user ` set (likes ann_post) \<and> \<not> fails reliable PostSave"
    by (simp add: ann_post_def reliable_def)
  from like_guarded [OF find_ann_post, of "''u2''"] a
    like_guarded [OF find_ann_post, of "''u1''"] b
  show ?thesis by (simp add: ann_post_def sample_db_def)
qed

text \<open>
  C6. When the post exists and the caller's id is not among its likes, the route answers
  400 "Post has not yet been liked" and the store is the one it was. When it is among
  them (and the save goes through), the first like of the caller is taken out, the post
  is saved without it, and the answer is 200 with the remaining likes: one fewer, and
  none of the caller's when no id was there twice.
\<close>

theorem unlike_guarded:
  "Post_findById d i s = Inr (Some p) \<Longrightarrow>
   (uid \<notin> like_user ` set (likes p) \<longrightarrow>
      unlike d uid i s = (Json 400 (Msg ''Post has not yet been liked''), s)) \<and>
   (uid \<in> like_user ` set (likes p) \<and> \<not> fails d PostSave \<longrightarrow>
      fst (unlike d uid i s) =
        Json 200 (LikesDoc (remove_first (\<lambda>l. like_user l = uid) (likes p))) \<and>
      Post_findById d i (snd (unlike d uid i s)) =
        Inr (Some (p\<lparr>likes := remove_first (\<lambda>l. like_user l = uid) (likes p)\<rparr>)) \<and>
      journal (snd (unlike d uid i s)) = journal s @ [(PostSave, post_id p)] \<and>
      Suc (length (remove_first (\<lambda>l. like_user l = uid) (likes p))) = length (likes p) \<and>
      (likes_distinct p \<longrightarrow>
         uid \<notin> like_user ` set (remove_first (\<lambda>l. like_user l = uid) (likes p))))"
proof -
  assume found: "Post_findById d i s = Inr (Some p)"
  from findById_cases [OF found] obtain k where
    ok: "\<not> fails d PostFindById" and cast: "castObjectId d i = Some k"
    and fnd: "find (\<lambda>q. post_id q = k) (posts s) = Some p" by auto
  let ?ls = "remove_first (\<lambda>l. like_user l = uid) (likes p)"
  let ?p' = "p\<lparr>likes := ?ls\<rparr>"
  have again: "find (\<lambda>q. post_id q = k) (map (\<lambda>q. if post_id q = post_id p then ?p' else q) (posts s)) = Some ?p'"
    using find_replace [OF fnd, of ?p'] by simp
  have absent: "uid \<notin> like_user ` set (likes p) \<longrightarrow>
      unlike d uid i s = (Json 400 (Msg ''Post has not yet been liked''), s)"
    using found indexOf_nonneg_iff [of "map like_user (likes p)" uid]
    by (simp add: unlike_def Let_def)
  have present: "fst (unlike d uid i s) = Json 200 (LikesDoc ?ls) \<and>
      Post_findById d i (snd (unlike d uid i s)) = Inr (Some ?p') \<and>
      journal (snd (unlike d uid i s)) = journal s @ [(PostSave, post_id p)]"
    if mem: "uid \<in> like_user ` set (likes p)" and sv: "\<not> fails d PostSave"
  proof -
    have idx: "0 \<le> indexOf (map like_user (likes p)) uid"
      using mem by (simp add: indexOf_nonneg_iff)
    have spl: "splice_js (likes p) (indexOf (map like_user (likes p)) uid) (Suc 0) = ?ls"
      using splice_js_indexOf [OF mem] by simp
    have run: "unlike d uid i s =
        (Json 200 (LikesDoc ?ls),
         s\<lparr>posts := map (\<lambda>q. if post_id q = post_id p then ?p' else q) (posts s),
           journal := journal s @ [(PostSave, post_id p)]\<rparr>)"
      using found idx sv by (simp add: unlike_def Let_def post_save_def spl)
    show ?thesis
      using ok cast again by (simp add: run Post_findById_def)
  qed
  have len: "Suc (length ?ls) = length (likes p)" if "uid \<in> like_user ` set (likes p)"
    using that by (intro length_remove_first) auto
  have gone: "likes_distinct p \<longrightarrow> uid \<notin> like_user ` set ?ls"
    using remove_first_gone [of like_user "likes p" uid] by (simp add: likes_distinct_def)
  from absent present len gone show ?thesis by blast
qed

theorem unlike_guarded_witness:
  "unlike reliable ''u1'' ''p1'' sample_db =
     (Json 400 (Msg ''Post has not yet been liked''), sample_db) \<and>
   fst (unlike reliable ''u2'' ''p1'' sample_db) = Json 200 (LikesDoc []) \<and>
   journal (snd (unlike reliable ''u2'' ''p1'' sample_db)) = [(PostSave, ''p1'')]"
proof -
  have a: "''u1'' \<notin> like_user ` set (likes ann_post)"
    by (simp add: ann_post_def)
  have b: "''u2'' \<in> like_user ` set (likes ann_post) \<and> \<not> fails reliable PostSave"
    by (simp add: ann_post_def reliable_def)
  from unlike_guarded [OF find_ann_post, of "''u1''"] a
    unlike_guarded [OF find_ann_post, of "''u2''"] b
  show ?thesis by (simp add: ann_post_def sample_db_def)
qed

text \<open>
  C9. No user id twice in the likes of a post is kept by both routes: when it holds for
  every post of the store, it holds for every post of the store after a like and after
  an unlike, and the likes a successful like or unlike returns have no id twice.
\<close>

theorem likes_stay_distinct:
  "posts_ok s \<Longrightarrow>
   posts_ok (snd (like d uid i s)) \<and> posts_ok (snd (unlike d uid i s)) \<and>
   (\<forall>ls. fst (like d uid i s) = Json 200 (LikesDoc ls) \<longrightarrow> distinct (map like_user ls)) \<and>
   (\<forall>ls. fst (unlike d uid i s) = Json 200 (LikesDoc ls) \<longrightarrow> distinct (map like_user ls))"
proof -
  assume inv: "posts_ok s"
  have added: "likes_distinct (p\<lparr>likes := unshift (likes p) \<lparr>like_user = uid\<rparr>\<rparr>)"
    if "Post_findById d i s = Inr (Some p)" and "\<not> 0 < length (filter (\<lambda>l. like_user l = uid) (likes p))"
    for p
    using that found_ok [OF inv, of d i p]
    by (auto simp: likes_distinct_def unshift_def liked_filter simp del: length_greater_0_conv)
  have removed: "likes_distinct (p\<lparr>likes := splice_js (likes p) (indexOf (map like_user (likes p)) uid) 1\<rparr>)"
    if "Post_findById d i s = Inr (Some p)" and "0 \<le> indexOf (map like_user (likes p)) uid"
    for p
  proof -
    from that(2) have mem: "uid \<in> like_user ` set (likes p)"
      by (simp add: indexOf_nonneg_iff)
    show ?thesis
      using splice_js_indexOf [OF mem] found_ok [OF inv that(1)]
        remove_first_distinct [of like_user "likes p"]
      by (simp add: likes_distinct_def)
  qed
  have l1: "posts_ok (snd (like d uid i s))"
    using inv added post_save_ok [OF inv]
    by (auto simp: like_def Let_def split: sum.splits option.splits simp del: length_greater_0_conv)
  have l2: "\<forall>ls. fst (like d uid i s) = Json 200 (LikesDoc ls) \<longrightarrow> distinct (map like_user ls)"
    using added
    by (auto simp: like_def Let_def catch_post_def likes_distinct_def
          split: sum.splits option.splits if_splits simp del: length_greater_0_conv)
  have u1: "posts_ok (snd (unlike d uid i s))"
    using inv removed post_save_ok [OF inv]
    by (auto simp: unlike_def Let_def split: sum.splits option.splits)
  have u2: "\<forall>ls. fst (unlike d uid i s) = Json 200 (LikesDoc ls) \<longrightarrow> distinct (map like_user ls)"
    using removed
    by (auto simp: unlike_def Let_def catch_post_def likes_distinct_def
          split: sum.splits option.splits if_splits)
  from l1 l2 u1 u2 show ?thesis by blast
qed

theorem likes_stay_distinct_witness:
  "posts_ok sample_db \<and>
   posts_ok (snd (like reliable ''u1'' ''p1'' sample_db)) \<and>
   posts_ok (snd (unlike reliable ''u2'' ''p1'' sample_db))"
proof -
  have a: "posts_ok sample_db"
    by (simp add: posts_ok_def likes_distinct_def sample_defs)
  from likes_stay_distinct [OF a, of reliable "''u1''" "''p1''"]
    likes_stay_distinct [OF a, of reliable "''u2''" "''p1''"] a
  show ?thesis by simp
qed

section \<open>Deleting a post\<close>

text \<open>
  C7. A post that is absent (no document of that id, or an id that is no ObjectId) is
  answered 404 "Post not found". A post of another user is answered 401 "User not
  authorized" and the store is the one it was, so the post is still there. The post of
  the caller is removed (reading it again finds nothing) and answered 200 "Post
  removed". Only in that last case do the posts of the store change or is the removal
  reported.
\<close>

theorem deleteById_guarded:
  "(Post_findById d i s = Inl CastError \<or> Post_findById d i s = Inr None \<longrightarrow>
      deleteById d uid i s = (Json 404 (Msg ''Post not found''), s)) \<and>
   (Post_findById d i s = Inr (Some p) \<and> post_user p \<noteq> uid \<longrightarrow>
      deleteById d uid i s = (Json 401 (Msg ''User not authorized''), s)) \<and>
   (Post_findById d i s = Inr (Some p) \<and> post_user p = uid \<and> \<not> fails d PostRemove \<longrightarrow>
      fst (deleteById d uid i s) = Json 200 (Msg ''Post removed'') \<and>
      Post_findById d i (snd (deleteById d uid i s)) = Inr None \<and>
      journal (snd (deleteById d uid i s)) = journal s @ [(PostRemove, post_id p)]) \<and>
   (posts (snd (deleteById d uid i s)) \<noteq> posts s \<or>
    fst (deleteById d uid i s) = Json 200 (Msg ''Post removed'') \<longrightarrow>
      (\<exists>q. Post_findById d i s = Inr (Some q) \<and> post_user q = uid))"
proof -
  have missing: "Post_findById d i s = Inl CastError \<or> Post_findById d i s = Inr None \<longrightarrow>
      deleteById d uid i s = (Json 404 (Msg ''Post not found''), s)"
    by (auto simp: deleteById_def catch_post_def)
  have foreign: "Post_findById d i s = Inr (Some p) \<and> post_user p \<noteq> uid \<longrightarrow>
      deleteById d uid i s = (Json 401 (Msg ''User not authorized''), s)"
    by (simp add: deleteById_def)
  have own: "fst (deleteById d uid i s) = Json 200 (Msg ''Post removed'') \<and>
      Post_findById d i (snd (deleteById d uid i s)) = Inr None \<and>
      journal (snd (deleteById d uid i s)) = journal s @ [(PostRemove, post_id p)]"
    if found: "Post_findById d i s = Inr (Some p)" and mine: "post_user p = uid"
      and rm: "\<not> fails d PostRemove"
  proof -
    from findById_cases [OF found] obtain k where
      ok: "\<not> fails d PostFindById" and cast: "castObjectId d i = Some k"
      and fnd: "find (\<lambda>q. post_id q = k) (posts s) = Some p" by auto
    show ?thesis
      using found mine rm ok cast find_filter_gone [OF fnd]
      by (simp add: deleteById_def post_remove_def Post_findById_def)
  qed
  have only: "posts (snd (deleteById d uid i s)) \<noteq> posts s \<or>
      fst (deleteById d uid i s) = Json 200 (Msg ''Post removed'') \<longrightarrow>
      (\<exists>q. Post_findById d i s = Inr (Some q) \<and> post_user q = uid)"
    by (auto simp: deleteById_def catch_post_def post_remove_def
          split: sum.splits option.splits if_splits)
  from missing foreign own only show ?thesis by blast
qed

theorem deleteById_guarded_witness:
  "deleteById reliable ''u1'' [] sample_db = (Json 404 (Msg ''Post not found''), sample_db) \<and>
   deleteById reliable ''u1'' ''p9'' sample_db = (Json 404 (Msg ''Post not found''), sample_db) \<and>
   deleteById reliable ''u2'' ''p1'' sample_db =
     (Json 401 (Msg ''User not authorized''), sample_db) \<and>
   fst (deleteById reliable ''u1'' ''p1'' sample_db) = Json 200 (Msg ''Post removed'') \<and>
   Post_findById reliable ''p1'' (snd (deleteById reliable ''u1'' ''p1'' sample_db)) = Inr None"
proof -
  have a: "Post_findById reliable [] sample_db = Inl CastError"
    by (simp add: Post_findById_def reliable_def)
  have b: "Post_findById reliable ''p9'' sample_db = Inr None"
    by (simp add: Post_findById_def sample_defs)
  have c: "post_user ann_post \<noteq> ''u2'' \<and> post_user ann_post = ''u1'' \<and>
      \<not> fails reliable PostRemove"
    by (simp add: ann_post_def reliable_def)
  from deleteById_guarded [where d = reliable and i = "[]" and s = sample_db and uid = "''u1''"] a
    deleteById_guarded [where d = reliable and i = "''p9''" and s = sample_db and uid = "''u1''"] b
    deleteById_guarded [where d = reliable and i = "''p1''" and s = sample_db and p = ann_post
      and uid = "''u2''"]
    deleteById_guarded [where d = reliable and i = "''p1''" and s = sample_db and p = ann_post
      and uid = "''u1''"] c find_ann_post
  show ?thesis by simp
qed

section \<open>Deleting an account\<close>

text \<open>
  C1. An account delete issues, in this order, the delete of the user's posts, the
  removal of the user's profile and the removal of the user, each only when the one
  before it completed: the writes the journal gains are exactly those up to the first
  call that fails, all three when none fails. So the posts are gone whenever the profile
  is removed, and the profile whenever the user is; with no failing call all posts of
  the user, the user's profile and the user record are removed and the answer is 200
  "User deleted"; otherwise it is 500.
\<close>

theorem deleteCascade_order:
  "\<exists>js. journal (snd (deleteCascade d uid s)) = journal s @ js \<and>
     js = (if fails d PostDeleteMany then []
           else if fails d ProfileFindOneAndRemove then [(PostDeleteMany, uid)]
           else if fails d UserFindOneAndRemove
             then [(PostDeleteMany, uid), (ProfileFindOneAndRemove, uid)]
           else [(PostDeleteMany, uid), (ProfileFindOneAndRemove, uid),
                 (UserFindOneAndRemove, uid)]) \<and>
     prefix js [(PostDeleteMany, uid), (ProfileFindOneAndRemove, uid), (UserFindOneAndRemove, uid)] \<and>
     (fst (deleteCascade d uid s) = Json 200 (Msg ''User deleted'')) =
       (js = [(PostDeleteMany, uid), (ProfileFindOneAndRemove, uid), (UserFindOneAndRemove, uid)]) \<and>
     (fst (deleteCascade d uid s) = Send 500 ''Server Error'') = (length js < 3) \<and>
     posts (snd (deleteCascade d uid s)) =
       (if 1 \<le> length js then filter (\<lambda>q. post_user q \<noteq> uid) (posts s) else posts s) \<and>
     profiles (snd (deleteCascade d uid s)) =
       (if 2 \<le> length js then remove_first (\<lambda>p. profile_user p = uid) (profiles s)
        else profiles s) \<and>
     users (snd (deleteCascade d uid s)) =
       (if 3 \<le> length js then remove_first (\<lambda>u. user_id u = uid) (users s) else users s)"
proof (cases "fails d PostDeleteMany")
  case True
  then show ?thesis
    by (intro exI [of _ "[]"])
      (simp add: deleteCascade_def Post_deleteMany_def catch_profile_def)
next
  case posts_done: False
  show ?thesis
  proof (cases "fails d ProfileFindOneAndRemove")
    case True
    with posts_done show ?thesis
      by (intro exI [of _ "[(PostDeleteMany, uid)]"])
        (simp add: deleteCascade_def Post_deleteMany_def Profile_findOneAndRemove_def
          catch_profile_def)
  next
    case profile_done: False
    show ?thesis
    proof (cases "fails d UserFindOneAndRemove")
      case True
      with posts_done profile_done show ?thesis
        by (intro exI [of _ "[(PostDeleteMany, uid), (ProfileFindOneAndRemove, uid)]"])
          (simp add: deleteCascade_def Post_deleteMany_def Profile_findOneAndRemove_def
            User_findOneAndRemove_def catch_profile_def)
    next
      case False
      with posts_done profile_done show ?thesis
        by (intro exI [of _ "[(PostDeleteMany, uid), (ProfileFindOneAndRemove, uid),
              (UserFindOneAndRemove, uid)]"])
          (simp add: deleteCascade_def Post_deleteMany_def Profile_findOneAndRemove_def
            User_findOneAndRemove_def)
    qed
  qed
qed

theorem deleteCascade_order_witness:
  "deleteCascade reliable ''u1'' sample_db =
     (Json 200 (Msg ''User deleted''),
      \<lparr>users = [bob], profiles = [], posts = [bob_post], counter = 0,
       journal = [(PostDeleteMany, ''u1''), (ProfileFindOneAndRemove, ''u1''),
                  (UserFindOneAndRemove, ''u1'')]\<rparr>) \<and>
   deleteCascade flaky ''u1'' sample_db =
     (Send 500 ''Server Error'',
      \<lparr>users = [ann, bob], profiles = [ann_profile], posts = [bob_post], counter = 0,
       journal = [(PostDeleteMany, ''u1'')]\<rparr>)"
  using deleteCascade_order [of reliable "''u1''" sample_db]
  by (simp add: deleteCascade_def Post_deleteMany_def Profile_findOneAndRemove_def
      User_findOneAndRemove_def catch_profile_def sample_defs)

section \<open>Creating or updating a profile\<close>

lemma build_fields:
  "pf_user (build_profileFields uid b) = uid"
  "pf_company (build_profileFields uid b) = assigned (b_company b)"
  "pf_website (build_profileFields uid b) = assigned (b_website b)"
  "pf_location (build_profileFields uid b) = assigned (b_location b)"
  "pf_bio (build_profileFields uid b) = assigned (b_bio b)"
  "pf_status (build_profileFields uid b) = assigned (b_status b)"
  "pf_githubusername (build_profileFields uid b) = assigned (b_githubusername b)"
  "pf_skills (build_profileFields uid b) =
     (if truthy (b_skills b) then Some (map trim (split 44 (the (b_skills b)))) else None)"
  "pf_social (build_profileFields uid b) =
     \<lparr>youtube = assigned (b_youtube b), twitter = assigned (b_twitter b),
      facebook = assigned (b_facebook b), linkedin = assigned (b_linkedin b),
      instagram = assigned (b_instagram b)\<rparr>"
  by (simp_all add: build_profileFields_def)

lemma assign_assigned:
  "assign (assigned v) old = (if truthy v then v else old)"
  by (cases v) (simp_all add: assign_def assigned_def truthy_def)

lemma assigned_falsy: "\<not> truthy v \<Longrightarrow> assigned v = None"
  by (simp add: assigned_def)

lemma find_append_new: "find P xs = None \<Longrightarrow> P x \<Longrightarrow> find P (xs @ [x]) = Some x"
  by (induction xs) (auto split: if_splits)

lemma upsert_persisted:
  assumes "Profile_findOne d uid s = Inr (Some p)"
    and "\<not> fails d ProfileFindOneAndUpdate"
  shows "Profile_findOne d uid (snd (upsert d uid [] b s)) =
     Inr (Some (dollar_set (build_profileFields uid b) p))"
proof -
  from findOne_cases [OF assms(1)] have ok: "\<not> fails d ProfileFindOne"
    and fnd: "find (\<lambda>q. profile_user q = uid) (profiles s) = Some p" by auto
  have "profile_user (dollar_set (build_profileFields uid b) p) = uid"
    by (simp add: dollar_set_def build_fields)
  from find_update_first [OF fnd, of "dollar_set (build_profileFields uid b)", OF this] ok
  show ?thesis
    by (simp add: upsert_existing [OF assms] Profile_findOne_def)
qed

lemma upsert_new_persisted:
  assumes "Profile_findOne d uid s = Inr None" and "\<not> fails d ProfileSave"
  shows "Profile_findOne d uid (snd (upsert d uid [] b s)) =
     Inr (Some (new_Profile (generate d (counter s)) (build_profileFields uid b)))"
proof -
  from findOne_cases [OF assms(1)] have ok: "\<not> fails d ProfileFindOne"
    and fnd: "find (\<lambda>q. profile_user q = uid) (profiles s) = None" by auto
  have "profile_user (new_Profile (generate d (counter s)) (build_profileFields uid b)) = uid"
    by (simp add: new_Profile_def build_fields)
  from find_append_new [OF fnd, of "new_Profile (generate d (counter s)) (build_profileFields uid b)",
      OF this] ok
  show ?thesis
    by (simp add: upsert_new [OF assms] Profile_findOne_def)
qed

lemma find_ann_profile: "Profile_findOne reliable ''u1'' sample_db = Inr (Some ann_profile)"
  by (simp add: Profile_findOne_def sample_defs)

lemma find_bob_profile: "Profile_findOne reliable ''u2'' sample_db = Inr None"
  by (simp add: Profile_findOne_def sample_defs)

lemma trim_samples:
  "trim (ascii ''html'') = ascii ''html''" "trim (ascii '' css '') = ascii ''css''"
  "trim (ascii ''js'') = ascii ''js''" "trim (ascii ''css'') = ascii ''css''"
  "trim (ascii ''c'') = ascii ''c''"
  by (simp_all add: trim_def is_space_def ascii_def)

text \<open>
  The skills of a request, split at the commas and trimmed, in their order; the no-break
  space and the byte order mark are trimmed like the space.
\<close>

lemma skills_example:
  "pf_skills (build_profileFields uid (edit_body\<lparr>b_skills := Some (ascii ''html, css, js'')\<rparr>)) =
     Some [ascii ''html'', ascii ''css'', ascii ''js'']"
  by (simp add: build_profileFields_def truthy_def trim_def is_space_def ascii_def)

lemma skills_example_nbsp:
  "pf_skills (build_profileFields uid
       (edit_body\<lparr>b_skills := Some (ascii ''html,'' @ [0xA0] @ ascii ''css'' @ [0xFEFF])\<rparr>)) =
     Some [ascii ''html'', ascii ''css'']"
  by (simp add: build_profileFields_def truthy_def trim_def is_space_def ascii_def)

text \<open>
  C2, as the route has it. For a user who has a profile, a request that passed the
  checks updates that profile with one write and returns it as stored. Of the fields of
  the profile itself, those the body has with a non-empty value take that value (the
  skills split at the commas and trimmed); the others, the experience, the education
  and the ids keep what was stored. The social links do not merge one by one: the
  embedded object is replaced by the one built from the request, so a link has the
  value sent when that is non-empty and is absent otherwise, whatever was stored.
\<close>

theorem upsert_merge:
  assumes "Profile_findOne d uid s = Inr (Some p)"
    and "\<not> fails d ProfileFindOneAndUpdate"
  shows "\<exists>p'. fst (upsert d uid [] b s) = Json 200 (ProfileDoc p') \<and>
     Profile_findOne d uid (snd (upsert d uid [] b s)) = Inr (Some p') \<and>
     journal (snd (upsert d uid [] b s)) = journal s @ [(ProfileFindOneAndUpdate, uid)] \<and>
     company p' = (if truthy (b_company b) then b_company b else company p) \<and>
     website p' = (if truthy (b_website b) then b_website b else website p) \<and>
     location p' = (if truthy (b_location b) then b_location b else location p) \<and>
     bio p' = (if truthy (b_bio b) then b_bio b else bio p) \<and>
     status p' = (if truthy (b_status b) then b_status b else status p) \<and>
     githubusername p' =
       (if truthy (b_githubusername b) then b_githubusername b else githubusername p) \<and>
     skills p' =
       (if truthy (b_skills b) then map trim (split 44 (the (b_skills b))) else skills p) \<and>
     social p' =
       \<lparr>youtube = assigned (b_youtube b), twitter = assigned (b_twitter b),
        facebook = assigned (b_facebook b), linkedin = assigned (b_linkedin b),
        instagram = assigned (b_instagram b)\<rparr> \<and>
     experience p' = experience p \<and> education p' = education p \<and>
     profile_id p' = profile_id p \<and> profile_user p' = uid"
proof (intro exI conjI)
  let ?p' = "dollar_set (build_profileFields uid b) p"
  show "fst (upsert d uid [] b s) = Json 200 (ProfileDoc ?p')"
    by (simp add: upsert_existing [OF assms])
  show "Profile_findOne d uid (snd (upsert d uid [] b s)) = Inr (Some ?p')"
    by (rule upsert_persisted [OF assms])
  show "journal (snd (upsert d uid [] b s)) = journal s @ [(ProfileFindOneAndUpdate, uid)]"
    by (simp add: upsert_existing [OF assms])
  show "company ?p' = (if truthy (b_company b) then b_company b else company p)"
    by (simp add: dollar_set_def build_fields assign_assigned)
  show "website ?p' = (if truthy (b_website b) then b_website b else website p)"
    by (simp add: dollar_set_def build_fields assign_assigned)
  show "location ?p' = (if truthy (b_location b) then b_location b else location p)"
    by (simp add: dollar_set_def build_fields assign_assigned)
  show "bio ?p' = (if truthy (b_bio b) then b_bio b else bio p)"
    by (simp add: dollar_set_def build_fields assign_assigned)
  show "status ?p' = (if truthy (b_status b) then b_status b else status p)"
    by (simp add: dollar_set_def build_fields assign_assigned)
  show "githubusername ?p' =
       (if truthy (b_githubusername b) then b_githubusername b else githubusername p)"
    by (simp add: dollar_set_def build_fields assign_assigned)
  show "skills ?p' =
       (if truthy (b_skills b) then map trim (split 44 (the (b_skills b))) else skills p)"
    by (simp add: dollar_set_def build_fields)
  show "social ?p' =
       \<lparr>youtube = assigned (b_youtube b), twitter = assigned (b_twitter b),
        facebook = assigned (b_facebook b), linkedin = assigned (b_linkedin b),
        instagram = assigned (b_instagram b)\<rparr>"
    by (simp add: dollar_set_def build_fields)
  show "experience ?p' = experience p" by (simp add: dollar_set_def)
  show "education ?p' = education p" by (simp add: dollar_set_def)
  show "profile_id ?p' = profile_id p" by (simp add: dollar_set_def)
  show "profile_user ?p' = uid" by (simp add: dollar_set_def build_fields)
qed

theorem upsert_merge_witness:
  "fst (upsert reliable ''u1'' [] edit_body sample_db) =
     Json 200 (ProfileDoc (ann_profile
       \<lparr>website := Some (ascii ''ann.dev''), status := Some (ascii ''Senior developer''),
        skills := [ascii ''html'', ascii ''css'', ascii ''js''],
        social := \<lparr>youtube = Some (ascii ''yt/new''), twitter = None, facebook = None,
                   linkedin = None, instagram = None\<rparr>\<rparr>))"
proof -
  have a: "\<not> fails reliable ProfileFindOneAndUpdate"
    by (simp add: reliable_def)
  from upsert_merge [OF find_ann_profile a, of edit_body] obtain p' where
    r: "fst (upsert reliable ''u1'' [] edit_body sample_db) = Json 200 (ProfileDoc p')"
    and f: "company p' = (if truthy (b_company edit_body) then b_company edit_body
                          else company ann_profile)"
      "website p' = (if truthy (b_website edit_body) then b_website edit_body
                     else website ann_profile)"
      "location p' = (if truthy (b_location edit_body) then b_location edit_body
                      else location ann_profile)"
      "bio p' = (if truthy (b_bio edit_body) then b_bio edit_body else bio ann_profile)"
      "status p' = (if truthy (b_status edit_body) then b_status edit_body
                    else status ann_profile)"
      "githubusername p' = (if truthy (b_githubusername edit_body)
                            then b_githubusername edit_body else githubusername ann_profile)"
      "skills p' = (if truthy (b_skills edit_body)
                    then map trim (split 44 (the (b_skills edit_body)))
                    else skills ann_profile)"
      "social p' = \<lparr>youtube = assigned (b_youtube edit_body),
                    twitter = assigned (b_twitter edit_body),
                    facebook = assigned (b_facebook edit_body),
                    linkedin = assigned (b_linkedin edit_body),
                    instagram = assigned (b_instagram edit_body)\<rparr>"
      "experience p' = experience ann_profile" "education p' = education ann_profile"
      "profile_id p' = profile_id ann_profile" "profile_user p' = ''u1''"
    by blast
  have sk: "map trim (split 44 (ascii ''html, css ,js'')) =
      [ascii ''html'', ascii ''css'', ascii ''js'']"
    by (simp add: trim_def is_space_def ascii_def)
  have ne: "ascii ''ann.dev'' \<noteq> []" "ascii ''Senior developer'' \<noteq> []"
    "ascii ''html, css ,js'' \<noteq> []" "ascii ''yt/new'' \<noteq> []"
    by (simp_all add: ascii_def)
  have "p' = ann_profile
       \<lparr>website := Some (ascii ''ann.dev''), status := Some (ascii ''Senior developer''),
        skills := [ascii ''html'', ascii ''css'', ascii ''js''],
        social := \<lparr>youtube = Some (ascii ''yt/new''), twitter = None, facebook = None,
                   linkedin = None, instagram = None\<rparr>\<rparr>"
    using f
    by (cases p')
      (simp add: ann_profile_def edit_body_def truthy_def assigned_def sk ne)
  with r show ?thesis by simp
qed

text \<open>
  Ann's stored Twitter link is gone after an edit that does not mention it: the claim
  C2 as it was stated, with the links merging one by one, does not hold.
\<close>

theorem upsert_merge_counterexample:
  "twitter (social ann_profile) = Some (ascii ''tw/ann'') \<and> b_twitter edit_body = None \<and>
   Profile_findOne reliable ''u1'' (snd (upsert reliable ''u1'' [] edit_body sample_db)) =
     Inr (Some (ann_profile
       \<lparr>website := Some (ascii ''ann.dev''), status := Some (ascii ''Senior developer''),
        skills := [ascii ''html'', ascii ''css'', ascii ''js''],
        social := \<lparr>youtube = Some (ascii ''yt/new''), twitter = None, facebook = None,
                   linkedin = None, instagram = None\<rparr>\<rparr>))"
proof -
  have a: "\<not> fails reliable ProfileFindOneAndUpdate"
    by (simp add: reliable_def)
  have sk: "map trim (split 44 (ascii ''html, css ,js'')) =
      [ascii ''html'', ascii ''css'', ascii ''js'']"
    by (simp add: trim_def is_space_def ascii_def)
  have ne: "ascii ''ann.dev'' \<noteq> []" "ascii ''Senior developer'' \<noteq> []"
    "ascii ''html, css ,js'' \<noteq> []" "ascii ''yt/new'' \<noteq> []"
    by (simp_all add: ascii_def)
  have "dollar_set (build_profileFields ''u1'' edit_body) ann_profile =
      ann_profile
       \<lparr>website := Some (ascii ''ann.dev''), status := Some (ascii ''Senior developer''),
        skills := [ascii ''html'', ascii ''css'', ascii ''js''],
        social := \<lparr>youtube = Some (ascii ''yt/new''), twitter = None, facebook = None,
                   linkedin = None, instagram = None\<rparr>\<rparr>"
    by (simp add: dollar_set_def build_fields assign_def assigned_def truthy_def
        edit_body_def ann_profile_def sk ne)
  with upsert_persisted [OF find_ann_profile a, of edit_body] show ?thesis
    by (simp add: ann_profile_def edit_body_def)
qed

text \<open>
  C10, as the route has it. A request that failed the checks is answered 400 with the
  errors and the store is the one it was. Of a request that passed them, a field the
  body has with an empty value (or does not have) is not applied. For a user who has a
  profile, such a field of the profile itself (company, website, location, bio, status,
  githubusername, skills) keeps its stored value; such a social link does not keep its
  stored value: the link is absent from the updated profile. For a user who has no
  profile, such a field is absent from the profile that is created (the skills are the
  empty list).
\<close>

theorem upsert_falsy:
  "(errors \<noteq> [] \<longrightarrow> upsert d uid errors b s = (Json 400 (Errors errors), s)) \<and>
   (Profile_findOne d uid s = Inr (Some p) \<and> \<not> fails d ProfileFindOneAndUpdate \<longrightarrow>
      (\<exists>p'. fst (upsert d uid [] b s) = Json 200 (ProfileDoc p') \<and>
         Profile_findOne d uid (snd (upsert d uid [] b s)) = Inr (Some p') \<and>
         (\<not> truthy (b_company b) \<longrightarrow> company p' = company p) \<and>
         (\<not> truthy (b_website b) \<longrightarrow> website p' = website p) \<and>
         (\<not> truthy (b_location b) \<longrightarrow> location p' = location p) \<and>
         (\<not> truthy (b_bio b) \<longrightarrow> bio p' = bio p) \<and>
         (\<not> truthy (b_status b) \<longrightarrow> status p' = status p) \<and>
         (\<not> truthy (b_githubusername b) \<longrightarrow> githubusername p' = githubusername p) \<and>
         (\<not> truthy (b_skills b) \<longrightarrow> skills p' = skills p) \<and>
         (\<not> truthy (b_youtube b) \<longrightarrow> youtube (social p') = None) \<and>
         (\<not> truthy (b_twitter b) \<longrightarrow> twitter (social p') = None) \<and>
         (\<not> truthy (b_facebook b) \<longrightarrow> facebook (social p') = None) \<and>
         (\<not> truthy (b_linkedin b) \<longrightarrow> linkedin (social p') = None) \<and>
         (\<not> truthy (b_instagram b) \<longrightarrow> instagram (social p') = None))) \<and>
   (Profile_findOne d uid s = Inr None \<and> \<not> fails d ProfileSave \<longrightarrow>
      (\<exists>p'. fst (upsert d uid [] b s) = Json 200 (ProfileDoc p') \<and>
         Profile_findOne d uid (snd (upsert d uid [] b s)) = Inr (Some p') \<and>
         (\<not> truthy (b_company b) \<longrightarrow> company p' = None) \<and>
         (\<not> truthy (b_website b) \<longrightarrow> website p' = None) \<and>
         (\<not> truthy (b_location b) \<longrightarrow> location p' = None) \<and>
         (\<not> truthy (b_bio b) \<longrightarrow> bio p' = None) \<and>
         (\<not> truthy (b_status b) \<longrightarrow> status p' = None) \<and>
         (\<not> truthy (b_githubusername b) \<longrightarrow> githubusername p' = None) \<and>
         (\<not> truthy (b_skills b) \<longrightarrow> skills p' = []) \<and>
         (\<not> truthy (b_youtube b) \<longrightarrow> youtube (social p') = None) \<and>
         (\<not> truthy (b_twitter b) \<longrightarrow> twitter (social p') = None) \<and>
         (\<not> truthy (b_facebook b) \<longrightarrow> facebook (social p') = None) \<and>
         (\<not> truthy (b_linkedin b) \<longrightarrow> linkedin (social p') = None) \<and>
         (\<not> truthy (b_instagram b) \<longrightarrow> instagram (social p') = None)))"
proof (intro conjI impI)
  assume "errors \<noteq> []"
  then show "upsert d uid errors b s = (Json 400 (Errors errors), s)"
    by (simp add: upsert_def)
next
  assume "Profile_findOne d uid s = Inr (Some p) \<and> \<not> fails d ProfileFindOneAndUpdate"
  then have a: "Profile_findOne d uid s = Inr (Some p)"
    "\<not> fails d ProfileFindOneAndUpdate" by simp_all
  let ?p' = "dollar_set (build_profileFields uid b) p"
  have "fst (upsert d uid [] b s) = Json 200 (ProfileDoc ?p')"
    by (simp add: upsert_existing [OF a])
  moreover have "Profile_findOne d uid (snd (upsert d uid [] b s)) = Inr (Some ?p')"
    by (rule upsert_persisted [OF a])
  moreover have "\<not> truthy (b_company b) \<longrightarrow> company ?p' = company p"
    "\<not> truthy (b_website b) \<longrightarrow> website ?p' = website p"
    "\<not> truthy (b_location b) \<longrightarrow> location ?p' = location p"
    "\<not> truthy (b_bio b) \<longrightarrow> bio ?p' = bio p"
    "\<not> truthy (b_status b) \<longrightarrow> status ?p' = status p"
    "\<not> truthy (b_githubusername b) \<longrightarrow> githubusername ?p' = githubusername p"
    "\<not> truthy (b_skills b) \<longrightarrow> skills ?p' = skills p"
    by (simp_all add: dollar_set_def build_fields assign_assigned)
  moreover have "\<not> truthy (b_youtube b) \<longrightarrow> youtube (social ?p') = None"
    "\<not> truthy (b_twitter b) \<longrightarrow> twitter (social ?p') = None"
    "\<not> truthy (b_facebook b) \<longrightarrow> facebook (social ?p') = None"
    "\<not> truthy (b_linkedin b) \<longrightarrow> linkedin (social ?p') = None"
    "\<not> truthy (b_instagram b) \<longrightarrow> instagram (social ?p') = None"
    by (simp_all add: dollar_set_def build_fields assigned_falsy)
  ultimately show "\<exists>p'. fst (upsert d uid [] b s) = Json 200 (ProfileDoc p') \<and>
         Profile_findOne d uid (snd (upsert d uid [] b s)) = Inr (Some p') \<and>
         (\<not> truthy (b_company b) \<longrightarrow> company p' = company p) \<and>
         (\<not> truthy (b_website b) \<longrightarrow> website p' = website p) \<and>
         (\<not> truthy (b_location b) \<longrightarrow> location p' = location p) \<and>
         (\<not> truthy (b_bio b) \<longrightarrow> bio p' = bio p) \<and>
         (\<not> truthy (b_status b) \<longrightarrow> status p' = status p) \<and>
         (\<not> truthy (b_githubusername b) \<longrightarrow> githubusername p' = githubusername p) \<and>
         (\<not> truthy (b_skills b) \<longrightarrow> skills p' = skills p) \<and>
         (\<not> truthy (b_youtube b) \<longrightarrow> youtube (social p') = None) \<and>
         (\<not> truthy (b_twitter b) \<longrightarrow> twitter (social p') = None) \<and>
         (\<not> truthy (b_facebook b) \<longrightarrow> facebook (social p') = None) \<and>
         (\<not> truthy (b_linkedin b) \<longrightarrow> linkedin (social p') = None) \<and>
         (\<not> truthy (b_instagram b) \<longrightarrow> instagram (social p') = None)"
    by blast
next
  assume "Profile_findOne d uid s = Inr None \<and> \<not> fails d ProfileSave"
  then have a: "Profile_findOne d uid s = Inr None" "\<not> fails d ProfileSave"
    by simp_all
  let ?p' = "new_Profile (generate d (counter s)) (build_profileFields uid b)"
  have "fst (upsert d uid [] b s) = Json 200 (ProfileDoc ?p')"
    by (simp add: upsert_new [OF a])
  moreover have "Profile_findOne d uid (snd (upsert d uid [] b s)) = Inr (Some ?p')"
    by (rule upsert_new_persisted [OF a])
  moreover have "\<not> truthy (b_company b) \<longrightarrow> company ?p' = None"
    "\<not> truthy (b_website b) \<longrightarrow> website ?p' = None"
    "\<not> truthy (b_location b) \<longrightarrow> location ?p' = None"
    "\<not> truthy (b_bio b) \<longrightarrow> bio ?p' = None"
    "\<not> truthy (b_status b) \<longrightarrow> status ?p' = None"
    "\<not> truthy (b_githubusername b) \<longrightarrow> githubusername ?p' = None"
    "\<not> truthy (b_skills b) \<longrightarrow> skills ?p' = []"
    by (simp_all add: new_Profile_def build_fields assigned_falsy)
  moreover have "\<not> truthy (b_youtube b) \<longrightarrow> youtube (social ?p') = None"
    "\<not> truthy (b_twitter b) \<longrightarrow> twitter (social ?p') = None"
    "\<not> truthy (b_facebook b) \<longrightarrow> facebook (social ?p') = None"
    "\<not> truthy (b_linkedin b) \<longrightarrow> linkedin (social ?p') = None"
    "\<not> truthy (b_instagram b) \<longrightarrow> instagram (social ?p') = None"
    by (simp_all add: new_Profile_def build_fields assigned_falsy)
  ultimately show "\<exists>p'. fst (upsert d uid [] b s) = Json 200 (ProfileDoc p') \<and>
         Profile_findOne d uid (snd (upsert d uid [] b s)) = Inr (Some p') \<and>
         (\<not> truthy (b_company b) \<longrightarrow> company p' = None) \<and>
         (\<not> truthy (b_website b) \<longrightarrow> website p' = None) \<and>
         (\<not> truthy (b_location b) \<longrightarrow> location p' = None) \<and>
         (\<not> truthy (b_bio b) \<longrightarrow> bio p' = None) \<and>
         (\<not> truthy (b_status b) \<longrightarrow> status p' = None) \<and>
         (\<not> truthy (b_githubusername b) \<longrightarrow> githubusername p' = None) \<and>
         (\<not> truthy (b_skills b) \<longrightarrow> skills p' = []) \<and>
         (\<not> truthy (b_youtube b) \<longrightarrow> youtube (social p') = None) \<and>
         (\<not> truthy (b_twitter b) \<longrightarrow> twitter (social p') = None) \<and>
         (\<not> truthy (b_facebook b) \<longrightarrow> facebook (social p') = None) \<and>
         (\<not> truthy (b_linkedin b) \<longrightarrow> linkedin (social p') = None) \<and>
         (\<not> truthy (b_instagram b) \<longrightarrow> instagram (social p') = None)"
    by blast
qed

theorem upsert_falsy_witness:
  "upsert reliable ''u1''
       [\<lparr>ve_msg = ''Status is required'', ve_param = ''status'', ve_location = ''body''\<rparr>]
       (clear_body\<lparr>b_status := Some []\<rparr>) sample_db =
     (Json 400 (Errors
        [\<lparr>ve_msg = ''Status is required'', ve_param = ''status'', ve_location = ''body''\<rparr>]),
      sample_db) \<and>
   fst (upsert reliable ''u1'' [] clear_body sample_db) =
     Json 200 (ProfileDoc (ann_profile
       \<lparr>social := \<lparr>youtube = None, twitter = Some (ascii ''tw/ann''), facebook = None,
                   linkedin = None, instagram = None\<rparr>\<rparr>)) \<and>
   fst (upsert reliable ''u2'' [] first_body sample_db) =
     Json 200 (ProfileDoc
       \<lparr>profile_id = ''new'', profile_user = ''u2'', company = None, website = None,
        location = None, bio = None, status = Some (ascii ''Student''),
        githubusername = None, skills = [ascii ''c''],
        social = \<lparr>youtube = None, twitter = None, facebook = None, linkedin = None,
                  instagram = None\<rparr>,
        experience = [], education = []\<rparr>)"
proof -
  let ?e = "[\<lparr>ve_msg = ''Status is required'', ve_param = ''status'', ve_location = ''body''\<rparr>]"
  have a: "?e \<noteq> []" by simp
  have b: "Profile_findOne reliable ''u1'' sample_db = Inr (Some ann_profile) \<and>
      \<not> fails reliable ProfileFindOneAndUpdate"
    using find_ann_profile by (simp add: reliable_def)
  have c: "Profile_findOne reliable ''u2'' sample_db = Inr None \<and> \<not> fails reliable ProfileSave"
    using find_bob_profile by (simp add: reliable_def)
  have ne: "ascii ''Developer'' \<noteq> []" "ascii ''html,css'' \<noteq> []" "ascii ''tw/ann'' \<noteq> []"
    "ascii ''Student'' \<noteq> []" "ascii ''c'' \<noteq> []"
    by (simp_all add: ascii_def)
  have sk: "map trim (split 44 (ascii ''html,css'')) = [ascii ''html'', ascii ''css'']"
    "map trim (split 44 (ascii ''c'')) = [ascii ''c'']"
    by (simp_all add: trim_def is_space_def ascii_def)
  have u: "fst (upsert reliable ''u1'' [] clear_body sample_db) =
     Json 200 (ProfileDoc (ann_profile
       \<lparr>social := \<lparr>youtube = None, twitter = Some (ascii ''tw/ann''), facebook = None,
                   linkedin = None, instagram = None\<rparr>\<rparr>))"
    using b
    by (simp add: upsert_existing dollar_set_def build_fields assign_def assigned_def
        truthy_def clear_body_def ann_profile_def sk ne)
  have n: "fst (upsert reliable ''u2'' [] first_body sample_db) =
     Json 200 (ProfileDoc
       \<lparr>profile_id = ''new'', profile_user = ''u2'', company = None, website = None,
        location = None, bio = None, status = Some (ascii ''Student''),
        githubusername = None, skills = [ascii ''c''],
        social = \<lparr>youtube = None, twitter = None, facebook = None, linkedin = None,
                  instagram = None\<rparr>,
        experience = [], education = []\<rparr>)"
    using c
    by (simp add: upsert_new new_Profile_def build_fields assigned_def truthy_def
        first_body_def sample_db_def reliable_def sk ne)
  from upsert_falsy [of ?e reliable "''u1''" "clear_body\<lparr>b_status := Some []\<rparr>" sample_db
      ann_profile] a
    upsert_falsy [of "[]" reliable "''u1''" clear_body sample_db ann_profile] b
    upsert_falsy [of "[]" reliable "''u2''" first_body sample_db ann_profile] c u n
  show ?thesis by simp
qed

text \<open>
  Ann's stored YouTube link is removed by an edit that sends the link as the empty
  string: the claim C10 as it was stated, with every stored value left unchanged, does
  not hold for the social links.
\<close>

theorem upsert_falsy_counterexample:
  "youtube (social ann_profile) = Some (ascii ''yt/ann'') \<and> b_youtube clear_body = Some [] \<and>
   Profile_findOne reliable ''u1'' (snd (upsert reliable ''u1'' [] clear_body sample_db)) =
     Inr (Some (ann_profile
       \<lparr>social := \<lparr>youtube = None, twitter = Some (ascii ''tw/ann''), facebook = None,
                   linkedin = None, instagram = None\<rparr>\<rparr>))"
proof -
  have a: "\<not> fails reliable ProfileFindOneAndUpdate"
    by (simp add: reliable_def)
  have ne: "ascii ''Developer'' \<noteq> []" "ascii ''html,css'' \<noteq> []" "ascii ''tw/ann'' \<noteq> []"
    by (simp_all add: ascii_def)
  have sk: "map trim (split 44 (ascii ''html,css'')) = [ascii ''html'', ascii ''css'']"
    by (simp add: trim_def is_space_def ascii_def)
  have "dollar_set (build_profileFields ''u1'' clear_body) ann_profile =
      ann_profile\<lparr>social := \<lparr>youtube = None, twitter = Some (ascii ''tw/ann''), facebook = None,
                   linkedin = None, instagram = None\<rparr>\<rparr>"
    by (simp add: dollar_set_def build_fields assign_def assigned_def truthy_def
        clear_body_def ann_profile_def sk ne)
  with upsert_persisted [OF find_ann_profile a, of clear_body] show ?thesis
    by (simp add: ann_profile_def clear_body_def)
qed

section \<open>Experience and education\<close>

lemma profile_save_found:
  assumes "Profile_findOne d uid s = Inr (Some p)" and "\<not> fails d ProfileSave"
    and "profile_user p' = profile_user p" and "profile_id p' = profile_id p"
  shows "\<exists>s'. profile_save d p' s = Inr s' \<and>
     Profile_findOne d uid s' = Inr (Some p') \<and>
     journal s' = journal s @ [(ProfileSave, profile_id p)] \<and>
     posts s' = posts s \<and> users s' = users s"
proof -
  from findOne_cases [OF assms(1)] have ok: "\<not> fails d ProfileFindOne"
    and fnd: "find (\<lambda>q. profile_user q = uid) (profiles s) = Some p" by auto
  from find_key [OF fnd] have "profile_user p' = uid" using assms(3) by simp
  from find_replace_id [OF fnd this, of profile_id] assms(2,4) ok
  show ?thesis
    by (simp add: profile_save_def Profile_findOne_def)
qed

text \<open>
  C8. For an owner who has a profile: when no entry of the experience (of the
  education) has the id of the request, the route answers 200 with the profile as it
  is and the store is the one it was, so nothing was saved. When an entry has it (and
  the save goes through), the first such entry is taken out, the profile is saved
  without it (reading it again gives the shorter list, the journal has one more save)
  and returned.
\<close>

theorem remove_entry_guarded:
  "Profile_findOne d uid s = Inr (Some p) \<Longrightarrow>
   (i \<notin> exp_id ` set (experience p) \<longrightarrow>
      removeExperience d uid i s = (Json 200 (ProfileDoc p), s)) \<and>
   (i \<in> exp_id ` set (experience p) \<and> \<not> fails d ProfileSave \<longrightarrow>
      fst (removeExperience d uid i s) =
        Json 200 (ProfileDoc (p\<lparr>experience := remove_first (\<lambda>e. exp_id e = i) (experience p)\<rparr>)) \<and>
      Profile_findOne d uid (snd (removeExperience d uid i s)) =
        Inr (Some (p\<lparr>experience := remove_first (\<lambda>e. exp_id e = i) (experience p)\<rparr>)) \<and>
      journal (snd (removeExperience d uid i s)) = journal s @ [(ProfileSave, profile_id p)] \<and>
      Suc (length (remove_first (\<lambda>e. exp_id e = i) (experience p))) = length (experience p)) \<and>
   (i \<notin> edu_id ` set (education p) \<longrightarrow>
      removeEducation d uid i s = (Json 200 (ProfileDoc p), s)) \<and>
   (i \<in> edu_id ` set (education p) \<and> \<not> fails d ProfileSave \<longrightarrow>
      fst (removeEducation d uid i s) =
        Json 200 (ProfileDoc (p\<lparr>education := remove_first (\<lambda>e. edu_id e = i) (education p)\<rparr>)) \<and>
      Profile_findOne d uid (snd (removeEducation d uid i s)) =
        Inr (Some (p\<lparr>education := remove_first (\<lambda>e. edu_id e = i) (education p)\<rparr>)) \<and>
      journal (snd (removeEducation d uid i s)) = journal s @ [(ProfileSave, profile_id p)] \<and>
      Suc (length (remove_first (\<lambda>e. edu_id e = i) (education p))) = length (education p))"
proof -
  assume found: "Profile_findOne d uid s = Inr (Some p)"
  have x0: "i \<notin> exp_id ` set (experience p) \<longrightarrow>
      removeExperience d uid i s = (Json 200 (ProfileDoc p), s)"
    using found indexOf_nonneg_iff [of "map exp_id (experience p)" i]
    by (simp add: removeExperience_def Let_def)
  have e0: "i \<notin> edu_id ` set (education p) \<longrightarrow>
      removeEducation d uid i s = (Json 200 (ProfileDoc p), s)"
    using found indexOf_nonneg_iff [of "map edu_id (education p)" i]
    by (simp add: removeEducation_def Let_def)
  let ?xs = "remove_first (\<lambda>e. exp_id e = i) (experience p)"
  let ?es = "remove_first (\<lambda>e. edu_id e = i) (education p)"
  have x1: "fst (removeExperience d uid i s) = Json 200 (ProfileDoc (p\<lparr>experience := ?xs\<rparr>)) \<and>
      Profile_findOne d uid (snd (removeExperience d uid i s)) =
        Inr (Some (p\<lparr>experience := ?xs\<rparr>)) \<and>
      journal (snd (removeExperience d uid i s)) = journal s @ [(ProfileSave, profile_id p)] \<and>
      Suc (length ?xs) = length (experience p)"
    if mem: "i \<in> exp_id ` set (experience p)" and sv: "\<not> fails d ProfileSave"
  proof -
    have idx: "0 \<le> indexOf (map exp_id (experience p)) i"
      using mem by (simp add: indexOf_nonneg_iff)
    have spl: "splice_js (experience p) (indexOf (map exp_id (experience p)) i) (Suc 0) = ?xs"
      using splice_js_indexOf [OF mem] by simp
    from profile_save_found [OF found sv, of "p\<lparr>experience := ?xs\<rparr>"]
    obtain s' where sv': "profile_save d (p\<lparr>experience := ?xs\<rparr>) s = Inr s'"
      and rd: "Profile_findOne d uid s' = Inr (Some (p\<lparr>experience := ?xs\<rparr>))"
      and jr: "journal s' = journal s @ [(ProfileSave, profile_id p)]"
      by auto
    have run: "removeExperience d uid i s = (Json 200 (ProfileDoc (p\<lparr>experience := ?xs\<rparr>)), s')"
      using found idx sv' by (simp add: removeExperience_def Let_def spl)
    have len: "Suc (length ?xs) = length (experience p)"
      using mem by (intro length_remove_first) auto
    from run rd jr len show ?thesis by simp
  qed
  have e1: "fst (removeEducation d uid i s) = Json 200 (ProfileDoc (p\<lparr>education := ?es\<rparr>)) \<and>
      Profile_findOne d uid (snd (removeEducation d uid i s)) =
        Inr (Some (p\<lparr>education := ?es\<rparr>)) \<and>
      journal (snd (removeEducation d uid i s)) = journal s @ [(ProfileSave, profile_id p)] \<and>
      Suc (length ?es) = length (education p)"
    if mem: "i \<in> edu_id ` set (education p)" and sv: "\<not> fails d ProfileSave"
  proof -
    have idx: "0 \<le> indexOf (map edu_id (education p)) i"
      using mem by (simp add: indexOf_nonneg_iff)
    have spl: "splice_js (education p) (indexOf (map edu_id (education p)) i) (Suc 0) = ?es"
      using splice_js_indexOf [OF mem] by simp
    from profile_save_found [OF found sv, of "p\<lparr>education := ?es\<rparr>"]
    obtain s' where sv': "profile_save d (p\<lparr>education := ?es\<rparr>) s = Inr s'"
      and rd: "Profile_findOne d uid s' = Inr (Some (p\<lparr>education := ?es\<rparr>))"
      and jr: "journal s' = journal s @ [(ProfileSave, profile_id p)]"
      by auto
    have run: "removeEducation d uid i s = (Json 200 (ProfileDoc (p\<lparr>education := ?es\<rparr>)), s')"
      using found idx sv' by (simp add: removeEducation_def Let_def spl)
    have len: "Suc (length ?es) = length (education p)"
      using mem by (intro length_remove_first) auto
    from run rd jr len show ?thesis by simp
  qed
  from x0 x1 e0 e1 show ?thesis by blast
qed

theorem remove_entry_guarded_witness:
  "removeExperience reliable ''u1'' ''e9'' sample_db = (Json 200 (ProfileDoc ann_profile), sample_db) \<and>
   removeEducation reliable ''u1'' ''e1'' sample_db = (Json 200 (ProfileDoc ann_profile), sample_db) \<and>
   fst (removeExperience reliable ''u1'' ''e1'' sample_db) =
     Json 200 (ProfileDoc (ann_profile\<lparr>experience := []\<rparr>)) \<and>
   fst (removeEducation reliable ''u1'' ''s1'' sample_db) =
     Json 200 (ProfileDoc (ann_profile\<lparr>education := []\<rparr>)) \<and>
   journal (snd (removeExperience reliable ''u1'' ''e1'' sample_db)) = [(ProfileSave, ''f1'')]"
proof -
  have a: "''e9'' \<notin> exp_id ` set (experience ann_profile)"
    "''e1'' \<notin> edu_id ` set (education ann_profile)"
    "''e1'' \<in> exp_id ` set (experience ann_profile)"
    "''s1'' \<in> edu_id ` set (education ann_profile)"
    "\<not> fails reliable ProfileSave"
    by (simp_all add: ann_profile_def job_def school_def reliable_def)
  from remove_entry_guarded [OF find_ann_profile, of "''e9''"]
    remove_entry_guarded [OF find_ann_profile, of "''e1''"]
    remove_entry_guarded [OF find_ann_profile, of "''s1''"] a
  show ?thesis
    by (simp add: ann_profile_def job_def school_def sample_db_def)
qed

text \<open>
  What the two adding routes do. Without a profile the route cannot answer anything
  but the failed checks or a server error; with one, a request that passed the checks
  has its new entry put in front of the others and the profile is saved with it.
\<close>

lemma add_without_profile:
  "Profile_findOne d uid s = Inr None \<Longrightarrow>
   addExperience d uid errors b s =
     (if errors \<noteq> [] then (Json 400 (Errors errors), s) else (Send 500 ''Server Error'', s)) \<and>
   addEducation d uid errors c s =
     (if errors \<noteq> [] then (Json 400 (Errors errors), s) else (Send 500 ''Server Error'', s))"
  by (simp add: addExperience_def addEducation_def catch_profile_def)

lemma addExperience_prepends:
  assumes "Profile_findOne d uid s = Inr (Some p)" and "\<not> fails d ProfileSave"
  shows "fst (addExperience d uid [] b s) =
      Json 200 (ProfileDoc (p\<lparr>experience := newExp (generate d (counter s)) b # experience p\<rparr>)) \<and>
    Profile_findOne d uid (snd (addExperience d uid [] b s)) =
      Inr (Some (p\<lparr>experience := newExp (generate d (counter s)) b # experience p\<rparr>)) \<and>
    journal (snd (addExperience d uid [] b s)) = journal s @ [(ProfileSave, profile_id p)]"
proof -
  let ?p' = "p\<lparr>experience := newExp (generate d (counter s)) b # experience p\<rparr>"
  let ?s1 = "s\<lparr>counter := Suc (counter s)\<rparr>"
  have found1: "Profile_findOne d uid ?s1 = Inr (Some p)"
    using assms(1) by (simp add: Profile_findOne_def split: if_splits)
  from profile_save_found [OF found1 assms(2), of ?p']
  obtain s' where sv: "profile_save d ?p' ?s1 = Inr s'"
    and rd: "Profile_findOne d uid s' = Inr (Some ?p')"
    and jr: "journal s' = journal s @ [(ProfileSave, profile_id p)]"
    by auto
  have "addExperience d uid [] b s = (Json 200 (ProfileDoc ?p'), s')"
    using assms sv by (simp add: addExperience_def Let_def unshift_def)
  with rd jr show ?thesis by simp
qed

lemma addEducation_prepends:
  assumes "Profile_findOne d uid s = Inr (Some p)" and "\<not> fails d ProfileSave"
  shows "fst (addEducation d uid [] b s) =
      Json 200 (ProfileDoc (p\<lparr>education := newEdu (generate d (counter s)) b # education p\<rparr>)) \<and>
    Profile_findOne d uid (snd (addEducation d uid [] b s)) =
      Inr (Some (p\<lparr>education := newEdu (generate d (counter s)) b # education p\<rparr>)) \<and>
    journal (snd (addEducation d uid [] b s)) = journal s @ [(ProfileSave, profile_id p)]"
proof -
  let ?p' = "p\<lparr>education := newEdu (generate d (counter s)) b # education p\<rparr>"
  let ?s1 = "s\<lparr>counter := Suc (counter s)\<rparr>"
  have found1: "Profile_findOne d uid ?s1 = Inr (Some p)"
    using assms(1) by (simp add: Profile_findOne_def split: if_splits)
  from profile_save_found [OF found1 assms(2), of ?p']
  obtain s' where sv: "profile_save d ?p' ?s1 = Inr s'"
    and rd: "Profile_findOne d uid s' = Inr (Some ?p')"
    and jr: "journal s' = journal s @ [(ProfileSave, profile_id p)]"
    by auto
  have "addEducation d uid [] b s = (Json 200 (ProfileDoc ?p'), s')"
    using assms sv by (simp add: addEducation_def Let_def unshift_def)
  with rd jr show ?thesis by simp
qed

text \<open>
  C3. Bob has no profile. Adding an experience or an education for him, with a request
  that passed the checks, is not answered as a profile that was not found: reading \<^verbatim>\<open>profile.experience\<close> of \<^verbatim>\<open>null\<close> throws,
  the catch block answers 500 "Server Error".
\<close>

theorem add_without_profile_crashes:
  "Profile_findOne reliable ''u2'' sample_db = Inr None \<and>
   addExperience reliable ''u2'' [] job_body sample_db = (Send 500 ''Server Error'', sample_db) \<and>
   addEducation reliable ''u2'' [] school_body sample_db = (Send 500 ''Server Error'', sample_db)"
  by (simp add: addExperience_def addEducation_def catch_profile_def Profile_findOne_def
      sample_defs)

section \<open>The repositories of a GitHub account: what the client gets\<close>

text \<open>
  The request asks for five repositories per page with \<^verbatim>\<open>sort=created:asc\<close>. An
  answer with another status than 200 becomes 404 "No github profile found"; the body
  of a 200 answer is parsed and relayed.
\<close>

lemma listRepos_uri:
  "github_uri keys ''ann'' =
     ''https://api.github.com/users/ann/repos?per_page=5&sort=created:asc&client_id=id&client_secret=secret''"
  by (simp add: github_uri_def keys_def)

lemma listRepos_not_found:
  "net (github_uri cfg username) = Answered statusCode body \<Longrightarrow> statusCode \<noteq> 200 \<Longrightarrow>
   listRepos cfg parse net username = Replied (Json 404 (Msg ''No github profile found''))"
  by (simp add: listRepos_def callback_def)

lemma listRepos_relays:
  "net (github_uri cfg username) = Answered 200 body \<Longrightarrow> parse body = Some v \<Longrightarrow>
   listRepos cfg parse net username = Replied (Json 200 (ReposDoc v))"
  by (simp add: listRepos_def callback_def)

text \<open>
  C4. When the transport fails, the callback logs the error and goes on to read the
  status code of a response that is not there: it throws, outside the route's try
  block, and the client gets no answer at all, not an error of the upstream service.
\<close>

theorem listRepos_transport_error:
  "listRepos cfg parse (\<lambda>uri. Failed e) username = Uncaught TypeError"
  by (simp add: listRepos_def callback_def)

end
